theory Spec2Isabelle
  imports Main "HOL-Library.Log_Nat"
begin

section \<open>JavaScript values\<close>

subsection \<open>Numbers\<close>

text \<open>
  Prices and totals are JavaScript numbers, that is IEEE 754 doubles, and the claims on
  totals depend on their rounding, so it is written out. A finite double is carried by
  its exact rational value; the sign of a zero is not represented (it is invisible to
  the arithmetic of this program, whose running sum starts at \<^verbatim>\<open>+0\<close>, and to
  \<^verbatim>\<open>JSON.stringify\<close>).
\<close>

datatype jsnum = NaN | Fin rat | PosInf | NegInf

definition pow2 :: "int \<Rightarrow> rat" where
  "pow2 k = (if 0 \<le> k then 2 ^ nat k else 1 / 2 ^ nat (- k))"

text \<open>For \<open>x > 0\<close>, the exponent \<open>k\<close> with \<open>2^k \<le> x < 2^(k+1)\<close>.\<close>

definition ilog2 :: "rat \<Rightarrow> int" where
  "ilog2 x = (let (a, b) = quotient_of x; k = bitlen a - bitlen b
              in if pow2 k \<le> x then k else k - 1)"

text \<open>The nearest integer, a tie going to the even one.\<close>

definition roundHalfEven :: "rat \<Rightarrow> int" where
  "roundHalfEven q =
     (let f = \<lfloor>q\<rfloor>; d = q - of_int f
      in if d < 1 / 2 then f else if 1 / 2 < d then f + 1 else if even f then f else f + 1)"

text \<open>
  The double nearest to a rational (round to nearest, ties to even): 53 significant
  bits, exponents from -1022 (below which the spacing stays \<open>2^-1074\<close>) to 1023, and
  overflow to an infinity from \<open>2^1024\<close> on.
\<close>

definition roundDouble :: "rat \<Rightarrow> jsnum" where
  "roundDouble x =
     (if x = 0 then Fin 0
      else let e = max (ilog2 \<bar>x\<bar>) (- 1022);
               n = roundHalfEven (\<bar>x\<bar> / pow2 (e - 52))
           in if 1024 \<le> e \<or> (e = 1023 \<and> n = 9007199254740992)
              then (if 0 < x then PosInf else NegInf)
              else Fin (sgn x * (of_int n * pow2 (e - 52))))"

text \<open>The number that an integral field (\<^verbatim>\<open>cartQuantity\<close>) holds.\<close>

definition number :: "int \<Rightarrow> jsnum" where
  "number i = roundDouble (of_int i)"

fun js_add :: "jsnum \<Rightarrow> jsnum \<Rightarrow> jsnum" where
  "js_add NaN _ = NaN"
| "js_add _ NaN = NaN"
| "js_add (Fin a) (Fin b) = roundDouble (a + b)"
| "js_add PosInf NegInf = NaN"
| "js_add NegInf PosInf = NaN"
| "js_add PosInf _ = PosInf"
| "js_add NegInf _ = NegInf"
| "js_add (Fin a) PosInf = PosInf"
| "js_add (Fin a) NegInf = NegInf"

fun js_neg :: "jsnum \<Rightarrow> jsnum" where
  "js_neg NaN = NaN"
| "js_neg (Fin a) = Fin (- a)"
| "js_neg PosInf = NegInf"
| "js_neg NegInf = PosInf"

definition js_sub :: "jsnum \<Rightarrow> jsnum \<Rightarrow> jsnum" where
  "js_sub a b = js_add a (js_neg b)"

fun js_mul :: "jsnum \<Rightarrow> jsnum \<Rightarrow> jsnum" where
  "js_mul NaN _ = NaN"
| "js_mul _ NaN = NaN"
| "js_mul (Fin a) (Fin b) = roundDouble (a * b)"
| "js_mul (Fin a) PosInf = (if a = 0 then NaN else if 0 < a then PosInf else NegInf)"
| "js_mul (Fin a) NegInf = (if a = 0 then NaN else if 0 < a then NegInf else PosInf)"
| "js_mul PosInf (Fin b) = (if b = 0 then NaN else if 0 < b then PosInf else NegInf)"
| "js_mul NegInf (Fin b) = (if b = 0 then NaN else if 0 < b then NegInf else PosInf)"
| "js_mul PosInf PosInf = PosInf"
| "js_mul NegInf NegInf = PosInf"
| "js_mul PosInf NegInf = NegInf"
| "js_mul NegInf PosInf = NegInf"

text \<open>A value that the arithmetic can return: a finite one is its own rounding.\<close>

definition isDouble :: "jsnum \<Rightarrow> bool" where
  "isDouble v = (case v of Fin r \<Rightarrow> roundDouble r = Fin r | _ \<Rightarrow> True)"

subsection \<open>Strings\<close>

text \<open>
  A JavaScript string is a sequence of UTF-16 code units. Every string of this program
  (the seed data, the literals, the pound sign U+00A3) stays below U+0100, so a code
  unit is modelled by a \<open>char\<close> and a string by a \<open>string\<close>.
\<close>

definition pound :: char where
  "pound = CHR 0xA3"

definition code :: "char \<Rightarrow> nat" where
  "code c = of_char c"

text \<open>
  White space and line terminators below U+0100, as \<^verbatim>\<open>trim\<close>, \<^verbatim>\<open>\s\<close>,
  \<^verbatim>\<open>parseInt\<close> and \<^verbatim>\<open>parseFloat\<close> see them.
\<close>

definition isWhiteSpace :: "char \<Rightarrow> bool" where
  "isWhiteSpace c \<longleftrightarrow> code c \<in> set [9, 10, 11, 12, 13, 32, 160]"

definition trim :: "string \<Rightarrow> string" where
  "trim s = rev (dropWhile isWhiteSpace (rev (dropWhile isWhiteSpace s)))"

definition lowerChar :: "char \<Rightarrow> char" where
  "lowerChar c =
     (let n = code c
      in if (65 \<le> n \<and> n \<le> 90) \<or> (192 \<le> n \<and> n \<le> 222 \<and> n \<noteq> 215)
         then char_of (n + 32) else c)"

definition toLowerCase :: "string \<Rightarrow> string" where
  "toLowerCase s = map lowerChar s"

definition startsWith :: "string \<Rightarrow> string \<Rightarrow> bool" where
  "startsWith s p \<longleftrightarrow> take (length p) s = p"

fun includes_str :: "string \<Rightarrow> string \<Rightarrow> bool" where
  "includes_str [] q = (q = [])"
| "includes_str (c # s) q = (startsWith (c # s) q \<or> includes_str s q)"

text \<open>\<^verbatim>\<open>String.prototype.replace\<close> with a string pattern: the first occurrence only.\<close>

fun replace :: "string \<Rightarrow> string \<Rightarrow> string \<Rightarrow> string" where
  "replace [] pat rep = (if pat = [] then rep else [])"
| "replace (c # s) pat rep =
     (if startsWith (c # s) pat then rep @ drop (length pat) (c # s)
      else c # replace s pat rep)"

definition isDigit :: "char \<Rightarrow> bool" where
  "isDigit c \<longleftrightarrow> 48 \<le> code c \<and> code c \<le> 57"

definition isHexDigit :: "char \<Rightarrow> bool" where
  "isHexDigit c \<longleftrightarrow>
     isDigit c \<or> (65 \<le> code c \<and> code c \<le> 70) \<or> (97 \<le> code c \<and> code c \<le> 102)"

definition digitValue :: "char \<Rightarrow> int" where
  "digitValue c =
     (if isDigit c then int (code c) - 48
      else if 97 \<le> code c then int (code c) - 87 else int (code c) - 55)"

definition digitsValue :: "int \<Rightarrow> string \<Rightarrow> int" where
  "digitsValue radix ds = foldl (\<lambda>v c. v * radix + digitValue c) 0 ds"

definition stripSign :: "string \<Rightarrow> bool \<times> string" where
  "stripSign s =
     (case s of
        [] \<Rightarrow> (False, [])
      | c # r \<Rightarrow> if c = CHR ''-'' then (True, r) else if c = CHR ''+'' then (False, r)
                 else (False, s))"

text \<open>
  \<^verbatim>\<open>parseInt(string)\<close> with no radix: leading white space and a sign are skipped, a
  prefix \<^verbatim>\<open>0x\<close> selects radix 16, the longest run of digits is read, and no digit at
  all gives \<^verbatim>\<open>NaN\<close>.
\<close>

definition parseInt :: "string \<Rightarrow> jsnum" where
  "parseInt s =
     (let (neg, u) = stripSign (dropWhile isWhiteSpace s);
          hex = (startsWith u ''0x'' \<or> startsWith u ''0X'');
          z = (if hex then takeWhile isHexDigit (drop 2 u) else takeWhile isDigit u)
      in if z = [] then NaN
         else let mathInt = digitsValue (if hex then 16 else 10) z
              in roundDouble (of_int (if neg then - mathInt else mathInt)))"

text \<open>
  \<^verbatim>\<open>parseFloat(string)\<close>: leading white space is skipped and the longest prefix that
  is a decimal literal is read (a sign, then \<^verbatim>\<open>Infinity\<close> or digits with an optional
  fraction and an optional exponent); no such prefix gives \<^verbatim>\<open>NaN\<close>. Whatever follows
  the prefix is ignored.
\<close>

definition exponentPart :: "string \<Rightarrow> int" where
  "exponentPart r =
     (case r of
        [] \<Rightarrow> 0
      | c # r' \<Rightarrow>
          if c = CHR ''e'' \<or> c = CHR ''E'' then
            let (neg, ds) = stripSign r'; es = takeWhile isDigit ds
            in if es = [] then 0
               else if neg then - digitsValue 10 es else digitsValue 10 es
          else 0)"

definition pow10 :: "int \<Rightarrow> rat" where
  "pow10 k = (if 0 \<le> k then 10 ^ nat k else 1 / 10 ^ nat (- k))"

definition parseFloat :: "string \<Rightarrow> jsnum" where
  "parseFloat s =
     (let (neg, u) = stripSign (dropWhile isWhiteSpace s)
      in if startsWith u ''Infinity'' then (if neg then NegInf else PosInf)
         else
           let ds = takeWhile isDigit u;
               r1 = dropWhile isDigit u;
               (fs, r2) = (case r1 of
                             [] \<Rightarrow> ([], [])
                           | c # r \<Rightarrow> if c = CHR ''.''
                                      then (takeWhile isDigit r, dropWhile isDigit r)
                                      else ([], r1))
           in if ds = [] \<and> fs = [] then NaN
              else
                let mv = of_int (digitsValue 10 (ds @ fs))
                           * pow10 (exponentPart r2 - int (length fs))
                in roundDouble (if neg then - mv else mv))"

subsection \<open>Arrays\<close>

text \<open>
  \<^verbatim>\<open>Array.prototype.sort(comparefn)\<close>: a comparator result that is \<^verbatim>\<open>NaN\<close> counts as
  \<^verbatim>\<open>+0\<close>, and the sort is stable. With a consistent comparator the result is the one
  stable ordering, computed here by insertion; with an inconsistent one ECMAScript
  leaves the order to the implementation.
\<close>

fun notAfter :: "jsnum \<Rightarrow> bool" where
  "notAfter NaN = True"
| "notAfter (Fin v) = (v \<le> 0)"
| "notAfter PosInf = False"
| "notAfter NegInf = True"

fun js_insert :: "('a \<Rightarrow> 'a \<Rightarrow> jsnum) \<Rightarrow> 'a \<Rightarrow> 'a list \<Rightarrow> 'a list" where
  "js_insert cmp x [] = [x]"
| "js_insert cmp x (y # ys) =
     (if notAfter (cmp x y) then x # y # ys else y # js_insert cmp x ys)"

definition js_sort :: "('a \<Rightarrow> 'a \<Rightarrow> jsnum) \<Rightarrow> 'a list \<Rightarrow> 'a list" where
  "js_sort cmp xs = foldr (js_insert cmp) xs []"

text \<open>\<^verbatim>\<open>Array.prototype.findIndex\<close>: the position of the first element satisfying \<open>P\<close>.\<close>

fun findIndex :: "('a \<Rightarrow> bool) \<Rightarrow> 'a list \<Rightarrow> nat option" where
  "findIndex P [] = None"
| "findIndex P (x # xs) =
     (if P x then Some 0 else map_option Suc (findIndex P xs))"

section \<open>Data model\<close>

text \<open>
  The repository holds three Vue instances, one per page: the catalogue page
  (\<^verbatim>\<open>src/unnamed/part_000\<close>), the cart page (\<^verbatim>\<open>src/cart.js\<close>) and the checkout page
  (\<^verbatim>\<open>src/checkout.js\<close>). Each keeps its reactive \<^verbatim>\<open>data\<close> object in memory and shares
  only the browser's \<^verbatim>\<open>localStorage\<close> with the others.

  A product is one object of the \<^verbatim>\<open>products\<close> array. The numeric fields \<^verbatim>\<open>id\<close>,
  \<^verbatim>\<open>spaces\<close> and \<^verbatim>\<open>quantity\<close> are JavaScript numbers that the seed data and the
  spec keep integral; they are modelled as \<open>int\<close> (integers of magnitude up to \<open>2^53\<close>
  are exact in a JavaScript number, and capacities here are at most 12). The field
  \<^verbatim>\<open>id\<close> is named \<open>id'\<close> because \<open>id\<close> is the identity function of HOL.
\<close>

record product =
  id' :: int
  name :: string
  Location :: string
  price :: string
  spaces :: int
  quantity :: int
  inCart :: bool

text \<open>
  A cart entry is built by \<^verbatim>\<open>{...product, cartQuantity: product.quantity}\<close>: a value copy
  of every field of the product as it is at that moment, plus \<^verbatim>\<open>cartQuantity\<close>.
\<close>

record cartItem = product +
  cartQuantity :: int

text \<open>
  The checkout forms. The cart page's form has \<^verbatim>\<open>name\<close>, \<^verbatim>\<open>email\<close> and
  \<^verbatim>\<open>address\<close> (cart.js lines 32-36); the checkout page's form has \<^verbatim>\<open>phone\<close> and
  \<^verbatim>\<open>payment\<close> as well (checkout.js lines 31-37). The field \<^verbatim>\<open>name\<close> is written
  \<open>name'\<close>, since \<open>name\<close> is the product's.
\<close>

record checkoutForm =
  name' :: string
  email :: string
  address :: string

record checkoutForm5 = checkoutForm +
  phone :: string
  payment :: string

text \<open>
  The order that \<^verbatim>\<open>processCheckout\<close> builds (cart.js lines 204-210); its fields
  \<^verbatim>\<open>id\<close> and \<^verbatim>\<open>total\<close> are written \<open>order_id\<close> and \<open>order_total\<close>.
\<close>

record order =
  order_id :: int
  customer :: checkoutForm
  items :: "cartItem list"
  order_total :: jsnum
  date :: string

text \<open>
  \<^verbatim>\<open>localStorage\<close> maps string keys to strings; the code uses the keys
  \<^verbatim>\<open>'classCart'\<close> and \<^verbatim>\<open>'lastOrder'\<close> only, and \<open>None\<close> is an absent key. The strings
  are written by \<^verbatim>\<open>JSON.stringify\<close> and read by \<^verbatim>\<open>JSON.parse\<close>, library functions
  outside this repository, so a stored string is modelled by what \<^verbatim>\<open>JSON.parse\<close> makes
  of it. Under \<^verbatim>\<open>'classCart'\<close>: the empty string, a text that encodes an array of cart
  entries, or a non-empty text that \<^verbatim>\<open>JSON.parse\<close> rejects with a \<^verbatim>\<open>SyntaxError\<close>. (A
  text that parses to something other than an array of cart entries is outside the
  model: \<open>cart\<close> holds entries only.) The key \<^verbatim>\<open>'lastOrder'\<close> is written and never
  read, and holds the order as \<^verbatim>\<open>JSON.stringify\<close> received it.
\<close>

datatype cartText = EmptyText | CartJSON "cartItem list" | Corrupt

record storage =
  classCart :: "cartText option"
  lastOrder :: "order option"

text \<open>
  A piece of an alert text: a string, or a number that \<^verbatim>\<open>+\<close> converts to a string
  (the conversion itself is not modelled).
\<close>

datatype piece = Str string | Num jsnum

text \<open>
  The state every page has: its \<^verbatim>\<open>cart\<close> array, the shared \<^verbatim>\<open>localStorage\<close>, the
  alerts shown so far and the address that \<^verbatim>\<open>window.location.href\<close> was last set to.
\<close>

record page =
  cart :: "cartItem list"
  localStorage :: storage
  alerts :: "piece list list"
  href :: "string option"

text \<open>The catalogue page (\<^verbatim>\<open>src/unnamed/part_000\<close>, \<^verbatim>\<open>data\<close>, lines 18-133).\<close>

record catalogPage = page +
  products :: "product list"
  searchQuery :: string
  sortBy :: string

text \<open>
  The cart page (\<^verbatim>\<open>src/cart.js\<close>, \<^verbatim>\<open>data\<close>, lines 18-40). \<open>pending\<close> is the number
  of \<^verbatim>\<open>setTimeout\<close> callbacks that \<^verbatim>\<open>submitCheckout\<close> has scheduled and that have
  not run yet.
\<close>

record cartPage = page +
  checkoutForm :: checkoutForm
  validationErrors :: "string \<rightharpoonup> string"
  checkoutSuccess :: bool
  isSubmitting :: bool
  pending :: nat

text \<open>The checkout page (\<^verbatim>\<open>src/checkout.js\<close>, \<^verbatim>\<open>data\<close>, lines 18-38).\<close>

record checkoutPage = page +
  form :: checkoutForm5


section \<open>Operations common to the pages\<close>

text \<open>
  The computed property \<^verbatim>\<open>total\<close> (part_000 lines 146-153, cart.js lines 53-60,
  checkout.js lines 51-58; the three are the same). \<open>addEntry\<close> is the callback of
  \<^verbatim>\<open>reduce\<close>, and \<open>computeTotal\<close> the reduction from the initial value 0.
\<close>

definition addEntry :: "jsnum \<Rightarrow> cartItem \<Rightarrow> jsnum" where
  "addEntry acc item =
     (let p = parseFloat (replace (price item) [pound] '''')
      in js_add acc (js_mul p (number (cartQuantity item))))"

definition computeTotal :: "cartItem list \<Rightarrow> jsnum" where
  "computeTotal c = foldl addEntry (Fin 0) c"

definition total :: "'m page_scheme \<Rightarrow> jsnum" where
  "total s = computeTotal (cart s)"

text \<open>\<^verbatim>\<open>saveCart\<close> (part_000 lines 273-276, cart.js lines 90-93).\<close>

definition saveCart :: "'m page_scheme \<Rightarrow> 'm page_scheme" where
  "saveCart s = s\<lparr>localStorage := (localStorage s)\<lparr>classCart := Some (CartJSON (cart s))\<rparr>\<rparr>"



section \<open>The catalogue page\<close>

text \<open>
  \<^verbatim>\<open>addToCart(product)\<close> (part_000 lines 203-229). The argument is a product of the
  catalogue, that is a reference to an element of \<^verbatim>\<open>this.products\<close>, which the method
  mutates in place; it is modelled by the position \<open>i\<close> of that element, and the writes to
  \<^verbatim>\<open>product.inCart\<close>, \<^verbatim>\<open>product.spaces\<close> and \<^verbatim>\<open>product.quantity\<close> are updates of
  \<open>products s ! i\<close>. A position outside the array stands for no product and the call
  does nothing. \<^verbatim>\<open>this.cart.find\<close> returns a reference to the first entry with the
  same \<^verbatim>\<open>id\<close>, whose \<^verbatim>\<open>cartQuantity\<close> is updated in place.
\<close>

definition addToCart :: "catalogPage \<Rightarrow> nat \<Rightarrow> catalogPage" where
  "addToCart s i =
     (if i < length (products s) then
        let product = products s ! i in
        if spaces product \<ge> quantity product \<and> quantity product > 0 then
          let s1 =
                (case findIndex (\<lambda>item. id' item = id' product) (cart s) of
                   Some j \<Rightarrow>
                     let existingItem = cart s ! j in
                     s\<lparr>cart := (cart s)[j := existingItem
                           \<lparr>cartQuantity := cartQuantity existingItem + quantity product\<rparr>]\<rparr>
                 | None \<Rightarrow>
                     let cartItem = product.extend product (cartItem.fields (quantity product)) in
                     s\<lparr>cart := cart s @ [cartItem],
                       products := (products s)[i := product\<lparr>inCart := True\<rparr>]\<rparr>);
              p1 = products s1 ! i;
              p2 = p1\<lparr>spaces := spaces p1 - quantity p1\<rparr>;
              p3 = p2\<lparr>quantity := 1\<rparr>
          in saveCart (s1\<lparr>products := (products s1)[i := p3]\<rparr>)
        else s
      else s)"

text \<open>
  \<^verbatim>\<open>removeFromCart(item)\<close> (part_000 lines 236-254). \<^verbatim>\<open>this.cart.indexOf(item)\<close>
  compares by object identity, and every cart entry is an object of its own, so the
  argument is modelled by the position \<open>index\<close> that \<^verbatim>\<open>indexOf\<close> returns; a position
  outside the cart stands for an object that is not a member (\<^verbatim>\<open>indexOf\<close> gives -1).
  \<^verbatim>\<open>this.products.find\<close> returns the first product with the entry's \<^verbatim>\<open>id\<close>.
\<close>

definition removeFromCart :: "catalogPage \<Rightarrow> nat \<Rightarrow> catalogPage" where
  "removeFromCart s index =
     (if index < length (cart s) then
        let item = cart s ! index;
            s1 = (case findIndex (\<lambda>p. id' p = id' item) (products s) of
                    Some k \<Rightarrow>
                      let originalProduct = products s ! k in
                      s\<lparr>products := (products s)[k := originalProduct
                            \<lparr>spaces := spaces originalProduct + cartQuantity item,
                             inCart := False\<rparr>]\<rparr>
                  | None \<Rightarrow> s)
        in saveCart (s1\<lparr>cart := take index (cart s1) @ drop (Suc index) (cart s1)\<rparr>)
      else s)"

text \<open>
  The computed property \<^verbatim>\<open>filteredProducts\<close> (part_000 lines 160-188).
  \<^verbatim>\<open>localeCompare\<close> depends on the browser's collation data and is a parameter.
\<close>

definition comparePrice :: "product \<Rightarrow> product \<Rightarrow> jsnum" where
  "comparePrice a b =
     (let priceA = parseInt (replace (price a) ''$'' '''');
          priceB = parseInt (replace (price b) ''$'' '''')
      in js_sub priceA priceB)"

definition filteredProducts :: "(string \<Rightarrow> string \<Rightarrow> jsnum) \<Rightarrow> catalogPage \<Rightarrow> product list" where
  "filteredProducts localeCompare s =
     (let filtered =
            (if searchQuery s \<noteq> [] then
               let query = toLowerCase (searchQuery s)
               in filter (\<lambda>product. includes_str (toLowerCase (name product)) query \<or>
                                     includes_str (toLowerCase (Location product)) query)
                    (products s)
             else products s)
      in if sortBy s \<noteq> [] then
           js_sort (\<lambda>a b. if sortBy s = ''name'' then localeCompare (name a) (name b)
                           else if sortBy s = ''price'' then comparePrice a b
                           else Fin 0)
             filtered
         else filtered)"

text \<open>
  What happens on the catalogue page between loads: a product's \<^verbatim>\<open>quantity\<close> field
  (how many spaces the user wants to buy, part_000 line 24) is set, \<^verbatim>\<open>addToCart\<close> is
  called on a product, or \<^verbatim>\<open>removeFromCart\<close> is called on a cart entry.
\<close>

datatype command = SetQuantity nat int | AddToCart nat | RemoveFromCart nat

fun step :: "catalogPage \<Rightarrow> command \<Rightarrow> catalogPage" where
  "step s (SetQuantity i q) =
     (if i < length (products s)
      then s\<lparr>products := (products s)[i := (products s ! i)\<lparr>quantity := q\<rparr>]\<rparr>
      else s)"
| "step s (AddToCart i) = addToCart s i"
| "step s (RemoveFromCart index) = removeFromCart s index"

definition run :: "catalogPage \<Rightarrow> command list \<Rightarrow> catalogPage" where
  "run s cs = foldl step s cs"

text \<open>The seeded catalogue (part_000 lines 26-117) and the page's initial \<^verbatim>\<open>data\<close>.\<close>

definition mkProduct :: "int \<Rightarrow> string \<Rightarrow> string \<Rightarrow> string \<Rightarrow> int \<Rightarrow> product" where
  "mkProduct i n l p sp =
     \<lparr>id' = i, name = n, Location = l, price = p, spaces = sp, quantity = 1, inCart = False\<rparr>"

definition seed :: "product list" where
  "seed =
    [mkProduct 1 ''Mobile App Development'' ''Birmingham'' (pound # ''88.99'') 10,
     mkProduct 2 ''Artificial Intelligence & Machine Learning'' ''West-Ham'' (pound # ''149.99'') 8,
     mkProduct 3 ''Cloud Computing with AWS or Azure Lab Course'' ''Newcastle'' (pound # ''99.99'') 5,
     mkProduct 4 ''Cybersecurity Basics'' ''Bristol'' (pound # ''250'') 5,
     mkProduct 5 ''UI/UX Design Principles'' ''Brentford'' (pound # ''220'') 5,
     mkProduct 6 ''Project Management'' ''Manchester'' (pound # ''250'') 5,
     mkProduct 7 ''Computer Science'' ''Villa-park'' (pound # ''200'') 10,
     mkProduct 8 ''Database Design & SQL'' ''Leicester'' (pound # ''199'') 7,
     mkProduct 9 ''Backend Development with Node.js'' ''Norwich'' (pound # ''209'') 5,
     mkProduct 10 ''Python Programming'' ''Liverpool'' (pound # ''150'') 12]"

definition emptyStorage :: storage where
  "emptyStorage = \<lparr>classCart = None, lastOrder = None\<rparr>"

definition initial :: "storage \<Rightarrow> catalogPage" where
  "initial st =
     \<lparr>cart = [], localStorage = st, alerts = [], href = None,
      products = seed, searchQuery = '''', sortBy = ''''\<rparr>"

text \<open>The aggregate quantity the cart holds for one identifier.\<close>

definition cartQty :: "cartItem list \<Rightarrow> int \<Rightarrow> int" where
  "cartQty c i = sum_list (map cartQuantity (filter (\<lambda>e. id' e = i) c))"

text \<open>
  The conservation property relative to a catalogue \<open>ps0\<close> as it was seeded: the
  identifiers stay in place, and for each product the cart's aggregate quantity plus
  the remaining spaces is the seeded capacity.
\<close>

definition conserved :: "product list \<Rightarrow> catalogPage \<Rightarrow> bool" where
  "conserved ps0 s \<longleftrightarrow>
     map id' (products s) = map id' ps0 \<and>
     (\<forall>k < length ps0.
        cartQty (cart s) (id' (ps0 ! k)) + spaces (products s ! k) = spaces (ps0 ! k))"

text \<open>The precondition of \<^verbatim>\<open>addToCart\<close> as the spec words it.\<close>

definition validRequest :: "product \<Rightarrow> bool" where
  "validRequest p \<longleftrightarrow> 1 \<le> quantity p \<and> quantity p \<le> spaces p"

text \<open>A session on the catalogue page, used to exercise the theorems below.\<close>

definition demo :: "command list" where
  "demo = [SetQuantity 0 3, AddToCart 0, AddToCart 0, AddToCart 9, RemoveFromCart 1]"

section \<open>The cart page\<close>

definition emptyForm :: checkoutForm where
  "emptyForm = \<lparr>name' = '''', email = '''', address = ''''\<rparr>"

definition cartPageInitial :: "storage \<Rightarrow> cartPage" where
  "cartPageInitial st =
     \<lparr>cart = [], localStorage = st, alerts = [], href = None,
      checkoutForm = emptyForm, validationErrors = Map.empty,
      checkoutSuccess = False, isSubmitting = False, pending = 0\<rparr>"

text \<open>
  \<^verbatim>\<open>removeFromCart(item)\<close> of the cart page (cart.js lines 74-83), which has no
  catalogue; the argument is the position that \<^verbatim>\<open>indexOf\<close> returns, as above.
\<close>

definition removeFromCart_cartPage :: "cartPage \<Rightarrow> nat \<Rightarrow> cartPage" where
  "removeFromCart_cartPage s index =
     (if index < length (cart s)
      then saveCart (s\<lparr>cart := take index (cart s) @ drop (Suc index) (cart s)\<rparr>)
      else s)"

text \<open>
  \<^verbatim>\<open>emailRegex.test\<close> for \<^verbatim>\<open>/^[^\s@]+@[^\s@]+\.[^\s@]+$/\<close>. The class \<^verbatim>\<open>[^\s@]\<close> is
  \<open>plainChar\<close>. The first group cannot contain \<^verbatim>\<open>@\<close>, so it is the run of plain
  characters before the first \<^verbatim>\<open>@\<close>; what follows that \<^verbatim>\<open>@\<close> must consist of plain
  characters and have a dot that is neither its first nor its last character.
\<close>

definition plainChar :: "char \<Rightarrow> bool" where
  "plainChar c \<longleftrightarrow> \<not> isWhiteSpace c \<and> c \<noteq> CHR ''@''"

definition emailRegex_test :: "string \<Rightarrow> bool" where
  "emailRegex_test s =
     (let a = takeWhile plainChar s; r = dropWhile plainChar s
      in a \<noteq> [] \<and>
         (case r of
            [] \<Rightarrow> False
          | c # d \<Rightarrow> c = CHR ''@'' \<and> list_all plainChar d \<and>
                     list_ex (\<lambda>k. d ! k = CHR ''.'') [1 ..< length d - 1]))"

text \<open>
  \<^verbatim>\<open>validateCheckoutForm\<close> (cart.js lines 121-154): \<^verbatim>\<open>validationErrors\<close> is reset and
  then gets one entry per field that fails; the result is \<^verbatim>\<open>isValid\<close> with the state.
\<close>

definition validateName :: "string \<Rightarrow> string option" where
  "validateName n =
     (if trim n = [] then Some ''Name is required''
      else if length (trim n) < 2 then Some ''Name must be at least 2 characters''
      else None)"

definition validateEmail :: "string \<Rightarrow> string option" where
  "validateEmail e =
     (if trim e = [] then Some ''Email is required''
      else if \<not> emailRegex_test e then Some ''Please enter a valid email address''
      else None)"

definition validateAddress :: "string \<Rightarrow> string option" where
  "validateAddress a =
     (if trim a = [] then Some ''Address is required''
      else if length (trim a) < 10 then Some ''Address must be at least 10 characters''
      else None)"

definition record_error :: "string \<Rightarrow> string option \<Rightarrow> (string \<rightharpoonup> string) \<times> bool \<Rightarrow> (string \<rightharpoonup> string) \<times> bool" where
  "record_error key msg st =
     (case msg of None \<Rightarrow> st | Some m \<Rightarrow> ((fst st)(key \<mapsto> m), False))"

definition validateCheckoutForm :: "cartPage \<Rightarrow> bool \<times> cartPage" where
  "validateCheckoutForm s =
     (let f = checkoutForm s;
          st0 = (Map.empty, True);
          st1 = record_error ''name'' (validateName (name' f)) st0;
          st2 = record_error ''email'' (validateEmail (email f)) st1;
          st3 = record_error ''address'' (validateAddress (address f)) st2
      in (snd st3, s\<lparr>validationErrors := fst st3\<rparr>))"

text \<open>
  \<^verbatim>\<open>submitCheckout\<close> (cart.js lines 160-196), up to the call of \<^verbatim>\<open>setTimeout\<close>, which
  adds one pending callback.
\<close>

definition submitCheckout :: "cartPage \<Rightarrow> cartPage" where
  "submitCheckout s =
     (if isSubmitting s then s
      else let (isValid, s1) = validateCheckoutForm s
           in if \<not> isValid then s1
              else s1\<lparr>isSubmitting := True, checkoutSuccess := False,
                      pending := pending s1 + 1\<rparr>)"

text \<open>
  \<^verbatim>\<open>processCheckout\<close> (cart.js lines 202-218). \<open>now\<close> is what \<^verbatim>\<open>Date.now()\<close> returns
  and \<open>isoDate\<close> what \<^verbatim>\<open>new Date().toISOString()\<close> returns.
\<close>

definition processCheckout :: "int \<Rightarrow> string \<Rightarrow> cartPage \<Rightarrow> cartPage" where
  "processCheckout now isoDate s =
     (let order = \<lparr>order_id = now, customer = checkoutForm s, items = cart s,
                    order_total = total s, date = isoDate\<rparr>;
          s1 = s\<lparr>localStorage := (localStorage s)\<lparr>lastOrder := Some order\<rparr>\<rparr>;
          s2 = s1\<lparr>cart := []\<rparr>
      in saveCart s2)"

text \<open>The callback that \<^verbatim>\<open>submitCheckout\<close> hands to \<^verbatim>\<open>setTimeout\<close> (cart.js lines 176-195).\<close>

definition checkoutCallback :: "int \<Rightarrow> string \<Rightarrow> cartPage \<Rightarrow> cartPage" where
  "checkoutCallback now isoDate s =
     (let s1 = processCheckout now isoDate s;
          s2 = s1\<lparr>checkoutSuccess := True, isSubmitting := False\<rparr>;
          s3 = s2\<lparr>checkoutForm := \<lparr>name' = '''', email = '''', address = ''''\<rparr>\<rparr>;
          s4 = s3\<lparr>validationErrors := Map.empty\<rparr>;
          who = (if name' (checkoutForm s4) \<noteq> [] then name' (checkoutForm s4)
                 else ''Customer'')
      in s4\<lparr>alerts := alerts s4 @
           [[Str (''Checkout successful! Thank you for your purchase, '' @ who @ ''!'')]]\<rparr>)"

text \<open>
  What happens on the cart page between loads: a field of \<^verbatim>\<open>checkoutForm\<close> is set,
  \<^verbatim>\<open>submitCheckout\<close> or \<^verbatim>\<open>removeFromCart\<close> is called, or a pending timer fires and
  runs the callback.
\<close>

datatype event =
  TypeName string | TypeEmail string | TypeAddress string
| Submit | Remove nat | TimerFires int string

fun cartStep :: "cartPage \<Rightarrow> event \<Rightarrow> cartPage" where
  "cartStep s (TypeName v) = s\<lparr>checkoutForm := (checkoutForm s)\<lparr>name' := v\<rparr>\<rparr>"
| "cartStep s (TypeEmail v) = s\<lparr>checkoutForm := (checkoutForm s)\<lparr>email := v\<rparr>\<rparr>"
| "cartStep s (TypeAddress v) = s\<lparr>checkoutForm := (checkoutForm s)\<lparr>address := v\<rparr>\<rparr>"
| "cartStep s Submit = submitCheckout s"
| "cartStep s (Remove index) = removeFromCart_cartPage s index"
| "cartStep s (TimerFires now isoDate) =
     (if 0 < pending s then checkoutCallback now isoDate (s\<lparr>pending := pending s - 1\<rparr>) else s)"

definition cartRun :: "cartPage \<Rightarrow> event list \<Rightarrow> cartPage" where
  "cartRun s es = foldl cartStep s es"

text \<open>
  While a submission is in flight exactly one callback is pending, and none otherwise.
\<close>

definition oneCallback :: "cartPage \<Rightarrow> bool" where
  "oneCallback s \<longleftrightarrow> pending s = (if isSubmitting s then 1 else 0)"

section \<open>The checkout page\<close>

definition checkoutPageInitial :: "storage \<Rightarrow> checkoutPage" where
  "checkoutPageInitial st =
     \<lparr>cart = [], localStorage = st, alerts = [], href = None,
      form = \<lparr>name' = '''', email = '''', address = '''', phone = '''', payment = ''''\<rparr>\<rparr>"

definition newline :: char where
  "newline = CHR 0x0A"

text \<open>
  \<^verbatim>\<open>completeOrder\<close> (checkout.js lines 96-136). An empty string is falsy, and a field is
  not trimmed here.
\<close>

definition completeOrder :: "checkoutPage \<Rightarrow> checkoutPage" where
  "completeOrder s =
     (let f = form s
      in if name' f = [] \<or> email f = [] \<or> phone f = [] \<or> address f = [] \<or> payment f = []
         then s\<lparr>alerts := alerts s @ [[Str ''Please fill in all required fields'']]\<rparr>
         else if length (cart s) = 0
         then s\<lparr>alerts := alerts s @ [[Str ''Your cart is empty. Please add some items first.'']],
                href := Some ''index.html''\<rparr>
         else s\<lparr>alerts := alerts s @
                  [[Str (''Order completed successfully!'' @ [newline, newline] @
                         ''Customer: '' @ name' f @ [newline] @
                         ''Email: '' @ email f @ [newline] @
                         ''Total: $''),
                    Num (total s),
                    Str ([newline] @ ''Payment: '' @ payment f)]],
                localStorage := (localStorage s)\<lparr>classCart := None\<rparr>,
                href := Some ''index.html''\<rparr>)"

section \<open>Sample data\<close>

text \<open>A filled form for each page, a session on the cart page, and the cart of the
  spec's checkout example as the catalogue page stores it.\<close>

definition sampleForm :: checkoutForm where
  "sampleForm =
     \<lparr>name' = ''Ada Lovelace'', email = ''ada@example.org'', address = ''12 St James Square''\<rparr>"

definition sampleForm5 :: checkoutForm5 where
  "sampleForm5 =
     \<lparr>name' = ''Ada Lovelace'', email = ''ada@example.org'', address = ''12 St James Square'',
      phone = ''07000 000000'', payment = ''card''\<rparr>"

definition fillAndSubmit :: "event list" where
  "fillAndSubmit =
     [TypeName ''Ada Lovelace'', TypeEmail ''ada@example.org'',
      TypeAddress ''12 St James Square'', Submit]"


definition emailMissing :: cartPage where
  "emailMissing = (cartPageInitial emptyStorage)\<lparr>checkoutForm := sampleForm\<lparr>email := ''''\<rparr>\<rparr>"

definition emailMissing5 :: checkoutPage where
  "emailMissing5 = (checkoutPageInitial emptyStorage)\<lparr>form := sampleForm5\<lparr>email := ''''\<rparr>\<rparr>"

definition nameMissing5 :: checkoutPage where
  "nameMissing5 = (checkoutPageInitial emptyStorage)\<lparr>form := sampleForm5\<lparr>name' := ''''\<rparr>\<rparr>"

text \<open>A cart entry with a given identifier, price string and chosen quantity.\<close>

definition mkEntry :: "int \<Rightarrow> string \<Rightarrow> int \<Rightarrow> cartItem" where
  "mkEntry i p q =
     product.extend (mkProduct i ''Lesson'' ''Town'' p 10) (cartItem.fields q)"




section \<open>Conservation of capacity on the catalogue page\<close>

lemma findIndex_Some:
  "findIndex P xs = Some j \<Longrightarrow> j < length xs \<and> P (xs ! j)"
  by (induction xs arbitrary: j) (auto split: if_splits)

lemma findIndex_None: "findIndex P xs = None \<Longrightarrow> x \<in> set xs \<Longrightarrow> \<not> P x"
  by (induction xs) (auto split: if_splits)

lemma findIndex_NoneI: "(\<And>x. x \<in> set xs \<Longrightarrow> \<not> P x) \<Longrightarrow> findIndex P xs = None"
  by (induction xs) auto

lemma findIndex_snoc:
  "findIndex P xs = None \<Longrightarrow> findIndex P (xs @ [e]) = (if P e then Some (length xs) else None)"
  by (induction xs) (auto split: if_splits)

lemma filter_none: "(\<And>x. x \<in> set xs \<Longrightarrow> \<not> P x) \<Longrightarrow> filter P xs = []"
  by (induction xs) auto

lemma cartQty_Nil: "cartQty [] i = 0"
  by (simp add: cartQty_def)

lemma cartQty_Cons:
  "cartQty (e # c) i = (if id' e = i then cartQuantity e else 0) + cartQty c i"
  by (simp add: cartQty_def)

lemma cartQty_append: "cartQty (xs @ ys) i = cartQty xs i + cartQty ys i"
  by (simp add: cartQty_def)

lemma cartQty_update:
  "j < length c \<Longrightarrow>
   cartQty (c[j := (c ! j)\<lparr>cartQuantity := q\<rparr>]) i =
     cartQty c i + (if id' (c ! j) = i then q - cartQuantity (c ! j) else 0)"
proof (induction c arbitrary: j)
  case Nil
  then show ?case by simp
next
  case (Cons e c)
  then show ?case by (cases j) (simp_all add: cartQty_Cons)
qed

lemma cartQty_remove:
  "j < length c \<Longrightarrow>
   cartQty (take j c @ drop (Suc j) c) i =
     cartQty c i - (if id' (c ! j) = i then cartQuantity (c ! j) else 0)"
proof (induction c arbitrary: j)
  case Nil
  then show ?case by simp
next
  case (Cons e c)
  then show ?case by (cases j) (simp_all add: cartQty_Cons)
qed

lemma map_id_update:
  "i < length ps \<Longrightarrow> id' p = id' (ps ! i) \<Longrightarrow> map id' (ps[i := p]) = map id' ps"
  by (simp add: map_update list_update_same_conv)

lemma ids_nth:
  "map id' ps = map id' ps0 \<Longrightarrow> k < length ps0 \<Longrightarrow> id' (ps ! k) = id' (ps0 ! k)"
  by (metis length_map nth_map)

lemma ids_distinct:
  "distinct (map id' ps0) \<Longrightarrow> i < length ps0 \<Longrightarrow> k < length ps0 \<Longrightarrow>
   id' (ps0 ! i) = id' (ps0 ! k) \<Longrightarrow> i = k"
  by (metis distinct_conv_nth length_map nth_map)

text \<open>What \<open>addToCart\<close> does in each of its three cases.\<close>

lemma addToCart_new:
  assumes "i < length (products s)" and "validRequest (products s ! i)"
    and "findIndex (\<lambda>item. id' item = id' (products s ! i)) (cart s) = None"
  shows "cart (addToCart s i) =
           cart s @ [product.extend (products s ! i) (cartItem.fields (quantity (products s ! i)))]"
    and "products (addToCart s i) =
           (products s)[i := (products s ! i)
              \<lparr>inCart := True,
               spaces := spaces (products s ! i) - quantity (products s ! i),
               quantity := 1\<rparr>]"
  using assms by (simp_all add: addToCart_def validRequest_def Let_def saveCart_def)

lemma addToCart_existing:
  assumes "i < length (products s)" and "validRequest (products s ! i)"
    and "findIndex (\<lambda>item. id' item = id' (products s ! i)) (cart s) = Some j"
  shows "cart (addToCart s i) =
           (cart s)[j := (cart s ! j)
              \<lparr>cartQuantity := cartQuantity (cart s ! j) + quantity (products s ! i)\<rparr>]"
    and "products (addToCart s i) =
           (products s)[i := (products s ! i)
              \<lparr>spaces := spaces (products s ! i) - quantity (products s ! i),
               quantity := 1\<rparr>]"
  using assms by (simp_all add: addToCart_def validRequest_def Let_def saveCart_def)

lemma addToCart_invalid:
  "\<not> (i < length (products s) \<and> validRequest (products s ! i)) \<Longrightarrow> addToCart s i = s"
  by (auto simp: addToCart_def validRequest_def)

lemma conserved_addToCart:
  assumes d: "distinct (map id' ps0)" and c: "conserved ps0 s"
  shows "conserved ps0 (addToCart s i)"
proof (cases "i < length (products s) \<and> validRequest (products s ! i)")
  case False
  then show ?thesis using c by (simp add: addToCart_invalid)
next
  case True
  then have il: "i < length (products s)" and v: "validRequest (products s ! i)" by simp_all
  from c have ids: "map id' (products s) = map id' ps0" by (simp add: conserved_def)
  then have len: "length (products s) = length ps0" by (metis length_map)
  from il have i: "i < length ps0" using len by simp
  have idi: "id' (products s ! i) = id' (ps0 ! i)" using ids i by (rule ids_nth)
  have old: "cartQty (cart s) (id' (ps0 ! k)) + spaces (products s ! k) = spaces (ps0 ! k)"
    if "k < length ps0" for k
    using c that by (simp add: conserved_def)
  have other: "id' (ps0 ! i) \<noteq> id' (ps0 ! k)" if "k < length ps0" "k \<noteq> i" for k
    using ids_distinct [OF d i that(1)] that(2) by auto
  show ?thesis
  proof (cases "findIndex (\<lambda>item. id' item = id' (products s ! i)) (cart s)")
    case None
    note eq = addToCart_new [OF il v None]
    show ?thesis
      unfolding conserved_def
    proof (intro conjI allI impI)
      show "map id' (products (addToCart s i)) = map id' ps0"
        using eq(2) ids il by (simp add: map_id_update)
    next
      fix k assume k: "k < length ps0"
      show "cartQty (cart (addToCart s i)) (id' (ps0 ! k)) + spaces (products (addToCart s i) ! k)
            = spaces (ps0 ! k)"
      proof (cases "k = i")
        case True
        then show ?thesis using eq old [OF k] idi il
          by (simp add: cartQty_append cartQty_Cons cartQty_Nil product.defs cartItem.defs)
      next
        case False
        then show ?thesis using eq old [OF k] other [OF k False] idi il
          by (simp add: cartQty_append cartQty_Cons cartQty_Nil product.defs cartItem.defs)
      qed
    qed
  next
    case (Some j)
    from findIndex_Some [OF Some]
    have j: "j < length (cart s)" and idj: "id' (cart s ! j) = id' (products s ! i)" by auto
    note eq = addToCart_existing [OF il v Some]
    show ?thesis
      unfolding conserved_def
    proof (intro conjI allI impI)
      show "map id' (products (addToCart s i)) = map id' ps0"
        using eq(2) ids il by (simp add: map_id_update)
    next
      fix k assume k: "k < length ps0"
      show "cartQty (cart (addToCart s i)) (id' (ps0 ! k)) + spaces (products (addToCart s i) ! k)
            = spaces (ps0 ! k)"
      proof (cases "k = i")
        case True
        then show ?thesis using eq old [OF k] idi idj il j
          by (simp add: cartQty_update)
      next
        case False
        then show ?thesis using eq old [OF k] other [OF k False] idi idj il j
          by (simp add: cartQty_update)
      qed
    qed
  qed
qed

lemma conserved_removeFromCart:
  assumes d: "distinct (map id' ps0)" and c: "conserved ps0 s"
  shows "conserved ps0 (removeFromCart s index)"
proof (cases "index < length (cart s)")
  case False
  then show ?thesis using c by (simp add: removeFromCart_def)
next
  case True
  from c have ids: "map id' (products s) = map id' ps0" by (simp add: conserved_def)
  then have len: "length (products s) = length ps0" by (metis length_map)
  have old: "cartQty (cart s) (id' (ps0 ! k)) + spaces (products s ! k) = spaces (ps0 ! k)"
    if "k < length ps0" for k
    using c that by (simp add: conserved_def)
  show ?thesis
  proof (cases "findIndex (\<lambda>p. id' p = id' (cart s ! index)) (products s)")
    case None
    have no: "id' (ps0 ! k) \<noteq> id' (cart s ! index)" if "k < length ps0" for k
    proof -
      have "products s ! k \<in> set (products s)" using that len by simp
      from findIndex_None [OF None this] have "id' (products s ! k) \<noteq> id' (cart s ! index)" .
      then show ?thesis using ids_nth [OF ids that] by simp
    qed
    show ?thesis
      unfolding conserved_def
    proof (intro conjI allI impI)
      show "map id' (products (removeFromCart s index)) = map id' ps0"
        using True None ids by (simp add: removeFromCart_def Let_def saveCart_def)
    next
      fix k assume k: "k < length ps0"
      with True None no [OF k] old [OF k]
      show "cartQty (cart (removeFromCart s index)) (id' (ps0 ! k))
              + spaces (products (removeFromCart s index) ! k) = spaces (ps0 ! k)"
        by (auto simp add: removeFromCart_def Let_def saveCart_def cartQty_remove)
    qed
  next
    case (Some j)
    from findIndex_Some [OF Some]
    have j: "j < length (products s)" and idj: "id' (products s ! j) = id' (cart s ! index)"
      by auto
    from j len have j0: "j < length ps0" by simp
    have idj0: "id' (ps0 ! j) = id' (cart s ! index)" using ids_nth [OF ids j0] idj by simp
    show ?thesis
      unfolding conserved_def
    proof (intro conjI allI impI)
      show "map id' (products (removeFromCart s index)) = map id' ps0"
        using True Some ids j by (simp add: removeFromCart_def Let_def saveCart_def map_id_update)
    next
      fix k assume k: "k < length ps0"
      show "cartQty (cart (removeFromCart s index)) (id' (ps0 ! k))
              + spaces (products (removeFromCart s index) ! k) = spaces (ps0 ! k)"
      proof (cases "k = j")
        case True
        with \<open>index < length (cart s)\<close> Some old [OF k] idj0 j show ?thesis
          by (simp add: removeFromCart_def Let_def saveCart_def cartQty_remove)
      next
        case False
        then have "id' (ps0 ! j) \<noteq> id' (ps0 ! k)" using ids_distinct [OF d j0 k] by auto
        with False \<open>index < length (cart s)\<close> Some old [OF k] idj0 j show ?thesis
          by (simp add: removeFromCart_def Let_def saveCart_def cartQty_remove)
      qed
    qed
  qed
qed

lemma conserved_step:
  assumes d: "distinct (map id' ps0)" and c: "conserved ps0 s"
  shows "conserved ps0 (step s c')"
proof (cases c')
  case (SetQuantity i q)
  then show ?thesis using c
    by (auto simp: conserved_def map_id_update nth_list_update)
next
  case (AddToCart i)
  then show ?thesis using conserved_addToCart [OF d c] by simp
next
  case (RemoveFromCart index)
  then show ?thesis using conserved_removeFromCart [OF d c] by simp
qed

lemma conserved_run:
  "distinct (map id' ps0) \<Longrightarrow> conserved ps0 s \<Longrightarrow> conserved ps0 (run s cs)"
  unfolding run_def by (induction cs arbitrary: s) (simp_all add: conserved_step)

lemma conserved_start: "cart s = [] \<Longrightarrow> conserved (products s) s"
  by (simp add: conserved_def cartQty_Nil)

lemma distinct_seed: "distinct (map id' seed)"
  by (simp add: seed_def mkProduct_def)

lemma length_seed: "length seed = 10"
  by (simp add: seed_def)

lemma demo_values:
  "cartQty (cart (run (initial emptyStorage) demo)) 1 = 4"
  "spaces (products (run (initial emptyStorage) demo) ! 0) = 6"
  "spaces (seed ! 0) = 10"
  by code_simp+

text \<open>
  \<^bold>\<open>Claim C1.\<close> For every product of the seeded catalogue and every sequence of
  \<open>addToCart\<close> and \<open>removeFromCart\<close> calls (with any setting of the quantity fields
  in between) from the seeded catalogue and the empty cart, the product keeps its
  identifier and position, and the quantities of the cart entries with that identifier
  plus the product's remaining spaces make the seeded capacity.
\<close>

theorem conservation:
  assumes "k < length seed" and "s = run (initial st) cs"
  shows "id' (products s ! k) = id' (seed ! k) \<and>
         cartQty (cart s) (id' (products s ! k)) + spaces (products s ! k) = spaces (seed ! k)"
proof -
  have "conserved seed (initial st)"
    using conserved_start [of "initial st"] by (simp add: initial_def)
  then have c: "conserved seed s"
    using assms(2) conserved_run [OF distinct_seed] by simp
  then have "map id' (products s) = map id' seed" by (simp add: conserved_def)
  then have "id' (products s ! k) = id' (seed ! k)" using assms(1) by (rule ids_nth)
  moreover have "cartQty (cart s) (id' (seed ! k)) + spaces (products s ! k) = spaces (seed ! k)"
    using c assms(1) by (simp add: conserved_def)
  ultimately show ?thesis by simp
qed

theorem conservation_witness:
  "(0::nat) < length seed \<and>
   id' (products (run (initial emptyStorage) demo) ! 0) = id' (seed ! 0) \<and>
   cartQty (cart (run (initial emptyStorage) demo))
      (id' (products (run (initial emptyStorage) demo) ! 0))
     + spaces (products (run (initial emptyStorage) demo) ! 0) = spaces (seed ! 0) \<and>
   cartQty (cart (run (initial emptyStorage) demo)) 1 = 4 \<and>
   spaces (products (run (initial emptyStorage) demo) ! 0) = 6 \<and>
   spaces (seed ! 0) = 10"
proof -
  have h: "(0::nat) < length seed" by (simp add: length_seed)
  note c = conservation [OF h refl, of emptyStorage demo]
  show ?thesis using h c demo_values by blast
qed

section \<open>Merging repeated adds\<close>

lemma addToCart_ids_existing:
  assumes "e \<in> set (cart s)" and "id' e = id' (products s ! i)"
  shows "map id' (cart (addToCart s i)) = map id' (cart s)"
proof (cases "i < length (products s) \<and> validRequest (products s ! i)")
  case False
  then show ?thesis by (simp add: addToCart_invalid)
next
  case True
  obtain j where j: "findIndex (\<lambda>item. id' item = id' (products s ! i)) (cart s) = Some j"
    using assms findIndex_None [of "\<lambda>item. id' item = id' (products s ! i)" "cart s" e]
    by (cases "findIndex (\<lambda>item. id' item = id' (products s ! i)) (cart s)") auto
  from findIndex_Some [OF j] have "j < length (cart s)" by simp
  then show ?thesis using True addToCart_existing(1) [OF _ _ j]
    by (simp add: map_update list_update_same_conv)
qed

lemma distinct_remove_nth: "distinct xs \<Longrightarrow> distinct (take i xs @ drop (Suc i) xs)"
  using set_take_disj_set_drop_if_distinct [of xs i "Suc i"] by simp

lemma distinct_ids_addToCart:
  assumes "distinct (map id' (cart s))"
  shows "distinct (map id' (cart (addToCart s i)))"
proof (cases "i < length (products s) \<and> validRequest (products s ! i)")
  case False
  then show ?thesis using assms by (simp add: addToCart_invalid)
next
  case True
  then have il: "i < length (products s)" and v: "validRequest (products s ! i)" by simp_all
  show ?thesis
  proof (cases "findIndex (\<lambda>item. id' item = id' (products s ! i)) (cart s)")
    case None
    have "id' (products s ! i) \<notin> set (map id' (cart s))"
    proof
      assume "id' (products s ! i) \<in> set (map id' (cart s))"
      then obtain x where "x \<in> set (cart s)" "id' x = id' (products s ! i)" by auto
      then show False using findIndex_None [OF None] by blast
    qed
    then show ?thesis using assms addToCart_new(1) [OF il v None]
      by (simp add: product.defs cartItem.defs)
  next
    case (Some j)
    from findIndex_Some [OF Some] have "j < length (cart s)" "id' (cart s ! j) = id' (products s ! i)"
      by auto
    then have "map id' (cart (addToCart s i)) = map id' (cart s)"
      using addToCart_existing(1) [OF il v Some] by (simp add: map_id_update)
    then show ?thesis using assms by simp
  qed
qed

lemma distinct_ids_removeFromCart:
  assumes "distinct (map id' (cart s))"
  shows "distinct (map id' (cart (removeFromCart s index)))"
proof (cases "index < length (cart s)")
  case False
  then show ?thesis using assms by (simp add: removeFromCart_def)
next
  case True
  have "cart (removeFromCart s index) = take index (cart s) @ drop (Suc index) (cart s)"
    using True by (simp add: removeFromCart_def Let_def saveCart_def split: option.splits)
  then show ?thesis
    using distinct_remove_nth [OF assms, of index] by (simp add: take_map drop_map)
qed

lemma distinct_ids_step:
  "distinct (map id' (cart s)) \<Longrightarrow> distinct (map id' (cart (step s c)))"
  by (cases c) (simp_all add: distinct_ids_addToCart distinct_ids_removeFromCart)

lemma distinct_ids_run:
  "distinct (map id' (cart s)) \<Longrightarrow> distinct (map id' (cart (run s cs)))"
  unfolding run_def by (induction cs arbitrary: s) (simp_all add: distinct_ids_step)

text \<open>
  \<^bold>\<open>Claim C2.\<close> Take any state of the catalogue page whose cart has no entry for
  product \<open>i\<close>. The product is added with requested quantity \<open>q1\<close> and then again with
  requested quantity \<open>q2\<close>, each being at least 1 and at most the spaces remaining at
  its call. Then the cart has exactly one entry with the product's identifier, its
  quantity is \<open>q1 + q2\<close>, the second add has created no entry (the identifiers in the
  cart are those after the first add), and the spaces went down by \<open>q1 + q2\<close>.
  Moreover no sequence of calls from the page's initial data ever puts two entries
  with one identifier into the cart.
\<close>

theorem merge_law:
  assumes i: "i < length (products s)"
    and fresh: "\<forall>e \<in> set (cart s). id' e \<noteq> id' (products s ! i)"
    and s1: "s1 = addToCart (step s (SetQuantity i q1)) i"
    and s2: "s2 = addToCart (step s1 (SetQuantity i q2)) i"
    and q1: "1 \<le> q1" "q1 \<le> spaces (products s ! i)"
    and q2: "1 \<le> q2" "q2 \<le> spaces (products s1 ! i)"
  shows "(\<exists>e. filter (\<lambda>e. id' e = id' (products s ! i)) (cart s2) = [e] \<and>
              cartQuantity e = q1 + q2) \<and>
         map id' (cart s2) = map id' (cart s1) \<and>
         spaces (products s2 ! i) = spaces (products s ! i) - (q1 + q2) \<and>
         distinct (map id' (cart (run (initial st) cs)))"
proof -
  let ?d = "id' (products s ! i)"
  let ?t = "step s (SetQuantity i q1)"
  have t_cart: "cart ?t = cart s" and t_len: "i < length (products ?t)"
    and t_p: "products ?t ! i = (products s ! i)\<lparr>quantity := q1\<rparr>"
    using i by simp_all
  have t_valid: "validRequest (products ?t ! i)" using q1 t_p by (simp add: validRequest_def)
  have t_none: "findIndex (\<lambda>item. id' item = id' (products ?t ! i)) (cart ?t) = None"
    using fresh t_p t_cart by (intro findIndex_NoneI) auto
  let ?e = "product.extend (products ?t ! i) (cartItem.fields (quantity (products ?t ! i)))"
  have c1: "cart s1 = cart s @ [?e]"
    using addToCart_new(1) [OF t_len t_valid t_none] s1 t_cart by simp
  have p1: "products s1 = (products ?t)[i := (products ?t ! i)
              \<lparr>inCart := True,
               spaces := spaces (products ?t ! i) - quantity (products ?t ! i),
               quantity := 1\<rparr>]"
    using addToCart_new(2) [OF t_len t_valid t_none] s1 by simp
  have e_id: "id' ?e = ?d" and e_q: "cartQuantity ?e = q1"
    using t_p by (simp_all add: product.defs cartItem.defs)
  have p1i: "id' (products s1 ! i) = ?d" "spaces (products s1 ! i) = spaces (products s ! i) - q1"
    using p1 t_len t_p by simp_all
  have len1: "i < length (products s1)" using p1 t_len by simp
  let ?u = "step s1 (SetQuantity i q2)"
  have u_cart: "cart ?u = cart s1" and u_len: "i < length (products ?u)"
    and u_p: "products ?u ! i = (products s1 ! i)\<lparr>quantity := q2\<rparr>"
    using len1 by simp_all
  have u_valid: "validRequest (products ?u ! i)" using q2 u_p by (simp add: validRequest_def)
  have s_none: "findIndex (\<lambda>item. id' item = ?d) (cart s) = None"
    using fresh by (intro findIndex_NoneI) auto
  have u_some: "findIndex (\<lambda>item. id' item = id' (products ?u ! i)) (cart ?u)
                  = Some (length (cart s))"
    using findIndex_snoc [OF s_none, of ?e] e_id u_p p1i(1) u_cart c1 by simp
  have c2: "cart s2 = (cart s1)[length (cart s) := (cart s1 ! length (cart s))
              \<lparr>cartQuantity := cartQuantity (cart s1 ! length (cart s)) + q2\<rparr>]"
    using addToCart_existing(1) [OF u_len u_valid u_some] s2 u_cart u_p by simp
  then have c2': "cart s2 = cart s @ [?e\<lparr>cartQuantity := q1 + q2\<rparr>]"
    using c1 e_q by simp
  have "filter (\<lambda>e. id' e = ?d) (cart s) = []"
    using fresh by (intro filter_none) auto
  then have "filter (\<lambda>e. id' e = ?d) (cart s2) = [?e\<lparr>cartQuantity := q1 + q2\<rparr>]"
    using c2' e_id by simp
  moreover have "map id' (cart s2) = map id' (cart s1)" using c2' c1 by simp
  moreover have "spaces (products s2 ! i) = spaces (products s ! i) - (q1 + q2)"
    using addToCart_existing(2) [OF u_len u_valid u_some] s2 u_p u_len p1i(2) by simp
  moreover have "distinct (map id' (cart (run (initial st) cs)))"
    by (rule distinct_ids_run) (simp add: initial_def)
  ultimately show ?thesis by simp
qed

lemma merge_values:
  "spaces (products (addToCart (step (initial emptyStorage) (SetQuantity 0 2)) 0) ! 0) = 8"
  "map cartQuantity
     (cart (addToCart (step (addToCart (step (initial emptyStorage) (SetQuantity 0 2)) 0)
                         (SetQuantity 0 3)) 0)) = [5]"
  "spaces (products (initial emptyStorage) ! 0) = 10"
  by code_simp+

theorem merge_law_witness:
  "(0::nat) < length (products (initial emptyStorage)) \<and>
   cart (initial emptyStorage) = [] \<and>
   (1::int) \<le> 2 \<and> 2 \<le> spaces (products (initial emptyStorage) ! 0) \<and>
   (1::int) \<le> 3 \<and>
   3 \<le> spaces (products (addToCart (step (initial emptyStorage) (SetQuantity 0 2)) 0) ! 0) \<and>
   (\<exists>e. filter (\<lambda>e. id' e = id' (products (initial emptyStorage) ! 0))
          (cart (addToCart (step (addToCart (step (initial emptyStorage) (SetQuantity 0 2)) 0)
                              (SetQuantity 0 3)) 0)) = [e] \<and>
        cartQuantity e = 2 + 3) \<and>
   map cartQuantity
     (cart (addToCart (step (addToCart (step (initial emptyStorage) (SetQuantity 0 2)) 0)
                         (SetQuantity 0 3)) 0)) = [5] \<and>
   distinct (map id' (cart (run (initial emptyStorage) demo)))"
proof -
  have h1: "(0::nat) < length (products (initial emptyStorage))"
    by (simp add: initial_def length_seed)
  have h2: "\<forall>e \<in> set (cart (initial emptyStorage)). id' e \<noteq> id' (products (initial emptyStorage) ! 0)"
    by (simp add: initial_def)
  have h3: "(2::int) \<le> spaces (products (initial emptyStorage) ! 0)"
    using merge_values(3) by simp
  have h4: "(3::int) \<le> spaces (products (addToCart (step (initial emptyStorage) (SetQuantity 0 2)) 0) ! 0)"
    using merge_values(1) by simp
  have h5: "(1::int) \<le> 2" and h6: "(1::int) \<le> 3" by simp_all
  have h0: "cart (initial emptyStorage) = []" by (simp add: initial_def)
  note m = merge_law [OF h1 h2 refl refl h5 h3 h6 h4, of emptyStorage demo]
  from m have d: "distinct (map id' (cart (run (initial emptyStorage) demo)))" by blast
  from m have e: "\<exists>e. filter (\<lambda>e. id' e = id' (products (initial emptyStorage) ! 0))
          (cart (addToCart (step (addToCart (step (initial emptyStorage) (SetQuantity 0 2)) 0)
                              (SetQuantity 0 3)) 0)) = [e] \<and>
        cartQuantity e = 2 + 3"
    by (rule conjunct1)
  show ?thesis using h0 h1 h3 h4 h5 h6 e d merge_values(2) by blast
qed

section \<open>The cart page: submission guard and success message\<close>

lemma submitCheckout_flags:
  "pending (submitCheckout s) = (if isSubmitting s then pending s
       else if fst (validateCheckoutForm s) then pending s + 1 else pending s)"
  "isSubmitting (submitCheckout s) = (isSubmitting s \<or> fst (validateCheckoutForm s))"
  by (auto simp: submitCheckout_def validateCheckoutForm_def Let_def split: prod.splits)

lemma checkoutCallback_flags:
  "pending (checkoutCallback now isoDate s) = pending s"
  "isSubmitting (checkoutCallback now isoDate s) = False"
  by (simp_all add: checkoutCallback_def processCheckout_def saveCart_def Let_def)

lemma oneCallback_step: "oneCallback s \<Longrightarrow> oneCallback (cartStep s e)"
proof (cases e)
  case Submit
  assume "oneCallback s"
  then show ?thesis using Submit
    by (auto simp: oneCallback_def submitCheckout_flags)
next
  case (Remove index)
  assume "oneCallback s"
  then show ?thesis using Remove
    by (simp add: oneCallback_def removeFromCart_cartPage_def saveCart_def)
next
  case (TimerFires now isoDate)
  assume "oneCallback s"
  then show ?thesis using TimerFires
    by (auto simp: oneCallback_def checkoutCallback_flags split: if_splits)
qed (simp_all add: oneCallback_def)

lemma oneCallback_run: "oneCallback s \<Longrightarrow> oneCallback (cartRun s es)"
  unfolding cartRun_def by (induction es arbitrary: s) (simp_all add: oneCallback_step)

lemma oneCallback_initial: "oneCallback (cartPageInitial st)"
  by (simp add: oneCallback_def cartPageInitial_def)

lemma fillAndSubmit_values:
  "isSubmitting (cartRun (cartPageInitial emptyStorage) fillAndSubmit)"
  "pending (cartRun (cartPageInitial emptyStorage) fillAndSubmit) = 1"
  "name' (checkoutForm (cartRun (cartPageInitial emptyStorage) fillAndSubmit)) = ''Ada Lovelace''"
  "alerts (cartRun (cartPageInitial emptyStorage) fillAndSubmit) = []"
  by code_simp+

text \<open>
  \<^bold>\<open>Claim C8.\<close> In every state whose in-flight flag \<open>isSubmitting\<close> is set, a call of
  \<open>submitCheckout\<close> returns the state as it is: the validation errors are not reset,
  nothing is written and no callback is scheduled. And in every state the cart page
  reaches from its initial data, the flag is set exactly while one callback is
  pending, so the flag is set throughout the delay and no second order can start.
\<close>

theorem double_submission_guard:
  "(isSubmitting s \<longrightarrow> submitCheckout s = s) \<and>
   (s = cartRun (cartPageInitial st) es \<longrightarrow> pending s = (if isSubmitting s then 1 else 0))"
proof
  show "isSubmitting s \<longrightarrow> submitCheckout s = s" by (simp add: submitCheckout_def)
  show "s = cartRun (cartPageInitial st) es \<longrightarrow> pending s = (if isSubmitting s then 1 else 0)"
    using oneCallback_run [OF oneCallback_initial, of st es] by (simp add: oneCallback_def)
qed

theorem double_submission_guard_witness:
  "isSubmitting (cartRun (cartPageInitial emptyStorage) fillAndSubmit) \<and>
   submitCheckout (cartRun (cartPageInitial emptyStorage) fillAndSubmit)
     = cartRun (cartPageInitial emptyStorage) fillAndSubmit \<and>
   pending (cartRun (cartPageInitial emptyStorage) fillAndSubmit) = 1"
  using double_submission_guard [of "cartRun (cartPageInitial emptyStorage) fillAndSubmit"
          emptyStorage fillAndSubmit]
    fillAndSubmit_values(1)
  by simp

text \<open>
  \<^bold>\<open>Claim C10.\<close> Whatever the form holds, the alert that the completion callback
  shows ends in the literal \<open>Customer\<close>: the form is reset to empty strings before the
  message reads \<open>checkoutForm.name\<close>. The name the customer entered is in the stored
  order, not in the message.
\<close>

theorem success_message_customer:
  "alerts (checkoutCallback now isoDate s) =
     alerts s @ [[Str ''Checkout successful! Thank you for your purchase, Customer!'']] \<and>
   map_option customer (lastOrder (localStorage (checkoutCallback now isoDate s)))
     = Some (checkoutForm s)"
  by (simp add: checkoutCallback_def processCheckout_def saveCart_def Let_def)

theorem success_message_customer_witness:
  "name' (checkoutForm (cartRun (cartPageInitial emptyStorage) fillAndSubmit)) = ''Ada Lovelace'' \<and>
   alerts (checkoutCallback 0 '''' (cartRun (cartPageInitial emptyStorage) fillAndSubmit)) =
     [[Str ''Checkout successful! Thank you for your purchase, Customer!'']]"
  using success_message_customer [of 0 "''''" "cartRun (cartPageInitial emptyStorage) fillAndSubmit"]
    fillAndSubmit_values(3,4)
  by simp

section \<open>Validation of the checkout forms\<close>

lemma validationErrors_validate:
  "validationErrors (snd (validateCheckoutForm s)) k =
     (if k = ''address'' then validateAddress (address (checkoutForm s))
      else if k = ''email'' then validateEmail (email (checkoutForm s))
      else if k = ''name'' then validateName (name' (checkoutForm s))
      else None)"
  by (simp add: validateCheckoutForm_def record_error_def Let_def split: option.splits)

lemma submit_empty_email:
  assumes "\<not> isSubmitting s" and "trim (email (checkoutForm s)) = []"
    and "validateName (name' (checkoutForm s)) = None"
    and "validateAddress (address (checkoutForm s)) = None"
  shows "submitCheckout s = s\<lparr>validationErrors := [''email'' \<mapsto> ''Email is required'']\<rparr>"
  using assms
  by (simp add: submitCheckout_def validateCheckoutForm_def record_error_def Let_def
        validateEmail_def)

lemma completeOrder_missing:
  assumes "name' (form c) = [] \<or> email (form c) = [] \<or> phone (form c) = [] \<or>
           address (form c) = [] \<or> payment (form c) = []"
  shows "completeOrder c = c\<lparr>alerts := alerts c @ [[Str ''Please fill in all required fields'']]\<rparr>"
  using assms by (auto simp: completeOrder_def Let_def)

lemma emailMissing_values:
  "\<not> isSubmitting emailMissing"
  "trim (email (checkoutForm emailMissing)) = []"
  "validateName (name' (checkoutForm emailMissing)) = None"
  "validateAddress (address (checkoutForm emailMissing)) = None"
  "email (form emailMissing5) = []"
  by code_simp+

text \<open>
  \<^bold>\<open>Claim C7\<close>, as the code has it. On the cart page, \<open>validateCheckoutForm\<close> leaves
  in \<open>validationErrors\<close> one entry per failing field, under the field's own key and
  with the field's own message, and nothing else. If the only defect is an email that
  is empty (or blank), \<open>submitCheckout\<close> changes nothing but \<open>validationErrors\<close>, which
  becomes the one entry for \<open>email\<close>: nothing is scheduled and the cart is as it was.
  On the checkout page, \<open>completeOrder\<close> answers any empty field with the one alert
  "Please fill in all required fields" and changes nothing else.
\<close>

theorem checkout_validation:
  "validationErrors (snd (validateCheckoutForm s)) =
     (\<lambda>k. if k = ''address'' then validateAddress (address (checkoutForm s))
          else if k = ''email'' then validateEmail (email (checkoutForm s))
          else if k = ''name'' then validateName (name' (checkoutForm s))
          else None) \<and>
   (\<not> isSubmitting s \<and> trim (email (checkoutForm s)) = [] \<and>
    validateName (name' (checkoutForm s)) = None \<and>
    validateAddress (address (checkoutForm s)) = None \<longrightarrow>
      submitCheckout s = s\<lparr>validationErrors := [''email'' \<mapsto> ''Email is required'']\<rparr>) \<and>
   (name' (form c) = [] \<or> email (form c) = [] \<or> phone (form c) = [] \<or>
    address (form c) = [] \<or> payment (form c) = [] \<longrightarrow>
      completeOrder c = c\<lparr>alerts := alerts c @ [[Str ''Please fill in all required fields'']]\<rparr>)"
  using validationErrors_validate [of s] submit_empty_email [of s] completeOrder_missing [of c]
  by (intro conjI impI ext) auto

theorem checkout_validation_witness:
  "\<not> isSubmitting emailMissing \<and> trim (email (checkoutForm emailMissing)) = [] \<and>
   validateName (name' (checkoutForm emailMissing)) = None \<and>
   validateAddress (address (checkoutForm emailMissing)) = None \<and>
   submitCheckout emailMissing
     = emailMissing\<lparr>validationErrors := [''email'' \<mapsto> ''Email is required'']\<rparr> \<and>
   email (form emailMissing5) = [] \<and>
   completeOrder emailMissing5
     = emailMissing5\<lparr>alerts := alerts emailMissing5 @ [[Str ''Please fill in all required fields'']]\<rparr>"
  using checkout_validation [of emailMissing emailMissing5] emailMissing_values
  by simp

text \<open>
  The claim as the spec words it fails on the checkout page: a form that lacks only
  the name and a form that lacks only the email get the same single generic alert.
\<close>

theorem checkout_validation_counterexample:
  "alerts (completeOrder nameMissing5) = [[Str ''Please fill in all required fields'']] \<and>
   alerts (completeOrder emailMissing5) = [[Str ''Please fill in all required fields'']]"
  by (simp add: completeOrder_def checkoutPageInitial_def sampleForm5_def Let_def
        nameMissing5_def emailMissing5_def)

section \<open>Rounding to a double\<close>

lemma pow2_powi: "pow2 k = 2 powi k"
  by (simp add: pow2_def power_int_def inverse_eq_divide power_one_over)

lemma pow2_pos: "0 < pow2 k"
  by (simp add: pow2_powi)

lemma pow2_add: "pow2 (a + b) = pow2 a * pow2 b"
  by (simp add: pow2_powi power_int_add)

lemma pow2_less: "a < b \<Longrightarrow> pow2 a < pow2 b"
  by (simp add: pow2_powi power_int_strict_increasing)

lemma pow2_le: "a \<le> b \<Longrightarrow> pow2 a \<le> pow2 b"
  by (simp add: pow2_powi power_int_increasing)

lemma pow2_less_cancel: "pow2 a < pow2 b \<Longrightarrow> a < b"
  using pow2_le [of b a] by (cases "a < b") auto

lemma pow2_nat: "0 \<le> k \<Longrightarrow> pow2 k = 2 ^ nat k"
  by (simp add: pow2_def)

lemma pow2_52: "pow2 52 = 4503599627370496" and pow2_53: "pow2 53 = 9007199254740992"
  by (simp_all add: pow2_def)

lemma ilog2_bounds:
  assumes "0 < x"
  shows "pow2 (ilog2 x) \<le> x \<and> x < pow2 (ilog2 x + 1)"
proof -
  obtain a b where q: "quotient_of x = (a, b)" by (cases "quotient_of x")
  then have b: "0 < b" by (rule quotient_of_denom_pos)
  from q have x: "x = of_int a / of_int b" by (rule quotient_of_div)
  with assms b have a: "0 < a" by (simp add: zero_less_divide_iff)
  let ?p = "bitlen a" and ?q = "bitlen b"
  have "?p \<noteq> 0" and "?q \<noteq> 0" using a b by (simp_all add: bitlen_eq_zero_iff)
  then have p1: "1 \<le> ?p" and q1: "1 \<le> ?q"
    using bitlen_nonneg [of a] bitlen_nonneg [of b] by linarith+
  from bitlen_bounds [OF a] have ia: "(2::int) ^ nat (?p - 1) \<le> a" "a < 2 ^ nat ?p" by simp_all
  have "(of_int ((2::int) ^ nat (?p - 1)) :: rat) \<le> of_int a"
    using ia(1) by (simp only: of_int_le_iff)
  moreover have "(of_int a :: rat) < of_int ((2::int) ^ nat ?p)"
    using ia(2) by (simp only: of_int_less_iff)
  ultimately have ra: "pow2 (?p - 1) \<le> of_int a" "(of_int a :: rat) < pow2 ?p"
    using p1 by (simp_all add: pow2_nat)
  from bitlen_bounds [OF b] have ib: "(2::int) ^ nat (?q - 1) \<le> b" "b < 2 ^ nat ?q" by simp_all
  have "(of_int ((2::int) ^ nat (?q - 1)) :: rat) \<le> of_int b"
    using ib(1) by (simp only: of_int_le_iff)
  moreover have "(of_int b :: rat) < of_int ((2::int) ^ nat ?q)"
    using ib(2) by (simp only: of_int_less_iff)
  ultimately have rb: "pow2 (?q - 1) \<le> of_int b" "(of_int b :: rat) < pow2 ?q"
    using q1 by (simp_all add: pow2_nat)
  have bpos: "(0::rat) < of_int b" using b by simp
  let ?k = "?p - ?q"
  have up: "x < pow2 (?k + 1)"
  proof -
    have "pow2 (?k + 1) * of_int b \<ge> pow2 (?k + 1) * pow2 (?q - 1)"
      using rb(1) pow2_pos [of "?k + 1"] by simp
    also have "pow2 (?k + 1) * pow2 (?q - 1) = pow2 ?p"
      by (simp flip: pow2_add)
    finally have "of_int a < pow2 (?k + 1) * of_int b" using ra(2) by simp
    then show ?thesis using bpos by (simp add: x pos_divide_less_eq)
  qed
  have lo: "pow2 (?k - 1) \<le> x"
  proof -
    have "pow2 (?k - 1) * of_int b \<le> pow2 (?k - 1) * pow2 ?q"
      using rb(2) pow2_pos [of "?k - 1"] by simp
    also have "pow2 (?k - 1) * pow2 ?q = pow2 (?p - 1)"
      by (simp flip: pow2_add)
    finally have "pow2 (?k - 1) * of_int b \<le> of_int a" using ra(1) by simp
    then show ?thesis using bpos by (simp add: x pos_le_divide_eq)
  qed
  show ?thesis
  proof (cases "pow2 ?k \<le> x")
    case True
    then have "ilog2 x = ?k" using q by (simp add: ilog2_def)
    then show ?thesis using True up by simp
  next
    case False
    then have "ilog2 x = ?k - 1" using q by (simp add: ilog2_def)
    then show ?thesis using False lo by simp
  qed
qed

lemma ilog2_unique:
  assumes "pow2 k \<le> x" and "x < pow2 (k + 1)"
  shows "ilog2 x = k"
proof -
  have x: "0 < x" using assms(1) pow2_pos [of k] by simp
  note b = ilog2_bounds [OF x]
  have "pow2 (ilog2 x) < pow2 (k + 1)" using b assms(2) by simp
  then have "ilog2 x < k + 1" by (rule pow2_less_cancel)
  moreover have "pow2 k < pow2 (ilog2 x + 1)" using b assms(1) by simp
  then have "k < ilog2 x + 1" by (rule pow2_less_cancel)
  ultimately show ?thesis by simp
qed

lemma roundHalfEven_int: "roundHalfEven (of_int n) = n"
  by (simp add: roundHalfEven_def)

lemma roundHalfEven_ge: "of_int lo \<le> q \<Longrightarrow> lo \<le> roundHalfEven q"
proof -
  assume "of_int lo \<le> q"
  then have "lo \<le> \<lfloor>q\<rfloor>" by (simp add: le_floor_iff)
  then show ?thesis by (simp add: roundHalfEven_def Let_def)
qed

lemma roundHalfEven_le: "q \<le> of_int hi \<Longrightarrow> roundHalfEven q \<le> hi"
proof -
  assume h: "q \<le> of_int hi"
  show ?thesis
  proof (cases "q = of_int hi")
    case True
    then show ?thesis by (simp add: roundHalfEven_int)
  next
    case False
    with h have "q < of_int hi" by simp
    then have "\<lfloor>q\<rfloor> < hi" by (simp add: floor_less_iff)
    then show ?thesis by (simp add: roundHalfEven_def Let_def)
  qed
qed


lemma roundDouble_unfold:
  assumes "x \<noteq> 0" and "e = max (ilog2 \<bar>x\<bar>) (- 1022)"
    and "n = roundHalfEven (\<bar>x\<bar> / pow2 (e - 52))"
  shows "roundDouble x =
           (if 1024 \<le> e \<or> (e = 1023 \<and> n = 9007199254740992)
            then (if 0 < x then PosInf else NegInf)
            else Fin (sgn x * (of_int n * pow2 (e - 52))))"
  unfolding assms(3) assms(2) roundDouble_def Let_def using assms(1) by (simp only: if_False)

text \<open>A value \<open>n * 2^(e-52)\<close> with a 53-bit \<open>n\<close> in range is its own rounding.\<close>

lemma roundDouble_fixed:
  assumes n: "0 < n" "n \<le> 9007199254740992"
    and e: "- 1022 \<le> e" "e \<le> 1023" "\<not> (e = 1023 \<and> n = 9007199254740992)"
    and sub: "n < 4503599627370496 \<Longrightarrow> e = - 1022"
  shows "roundDouble (of_int n * pow2 (e - 52)) = Fin (of_int n * pow2 (e - 52))"
proof -
  define u where "u = pow2 (e - 52)"
  define x where "x = of_int n * u"
  have u: "0 < u" unfolding u_def by (rule pow2_pos)
  have x: "0 < x" using n(1) u by (simp add: x_def)
  then have x0: "x \<noteq> 0" and ax: "\<bar>x\<bar> = x" and sx: "sgn x = 1" by simp_all
  have a52: "52 + (e - 52) = e" and a53: "53 + (e - 52) = e + 1" by simp_all
  have pe: "pow2 e = 4503599627370496 * u"
    using pow2_add [of 52 "e - 52"] unfolding a52 by (simp add: pow2_52 u_def)
  have pe1: "pow2 (e + 1) = 9007199254740992 * u"
    using pow2_add [of 53 "e - 52"] unfolding a53 by (simp add: pow2_53 u_def)
  consider (normal) "4503599627370496 \<le> n" "n < 9007199254740992"
    | (top) "n = 9007199254740992" | (subnormal) "n < 4503599627370496"
    using n(2) by linarith
  then have "roundDouble x = Fin x"
  proof cases
    case normal
    have "pow2 e \<le> x" using normal(1) u by (simp add: pe x_def)
    moreover have "x < pow2 (e + 1)" using normal(2) u by (simp add: pe1 x_def)
    ultimately have "ilog2 x = e" by (rule ilog2_unique)
    then have m: "e = max (ilog2 \<bar>x\<bar>) (- 1022)" using e(1) by (simp add: ax)
    have "\<bar>x\<bar> / pow2 (e - 52) = of_int n" unfolding ax using u by (simp add: x_def u_def)
    then have q: "n = roundHalfEven (\<bar>x\<bar> / pow2 (e - 52))" by (simp add: roundHalfEven_int)
    have "roundDouble x = Fin (sgn x * (of_int n * pow2 (e - 52)))"
      using roundDouble_unfold [OF x0 m q] normal(2) e(2) by simp
    then show ?thesis unfolding sx by (simp add: x_def u_def)
  next
    case top
    have e2: "e + 1 \<le> 1023" using e(2,3) top by linarith
    have "pow2 (e + 1) \<le> x" using top by (simp add: pe1 x_def)
    moreover have "x < pow2 (e + 1 + 1)"
    proof -
      have "1 + (e + 1) = e + 1 + 1" by simp
      then have "pow2 (e + 1 + 1) = pow2 1 * pow2 (e + 1)"
        using pow2_add [of 1 "e + 1"] by (simp only:)
      then have "pow2 (e + 1 + 1) = 2 * (9007199254740992 * u)"
        unfolding pe1 by (simp add: pow2_def)
      then show ?thesis using u top by (simp add: x_def)
    qed
    ultimately have "ilog2 x = e + 1" by (rule ilog2_unique)
    then have m: "e + 1 = max (ilog2 \<bar>x\<bar>) (- 1022)" using e(1) by (simp add: ax)
    have "1 + (e - 52) = e + 1 - 52" by simp
    then have "pow2 (e + 1 - 52) = pow2 1 * pow2 (e - 52)"
      using pow2_add [of 1 "e - 52"] by (simp only:)
    then have u2: "pow2 (e + 1 - 52) = 2 * u" unfolding u_def by (simp add: pow2_def)
    have "\<bar>x\<bar> / pow2 (e + 1 - 52) = of_int 4503599627370496"
      unfolding u2 ax using u top by (simp add: x_def)
    then have q: "4503599627370496 = roundHalfEven (\<bar>x\<bar> / pow2 (e + 1 - 52))"
      by (simp only: roundHalfEven_int)
    have "roundDouble x = Fin (sgn x * (of_int 4503599627370496 * pow2 (e + 1 - 52)))"
      using roundDouble_unfold [OF x0 m q] e2 by simp
    then show ?thesis unfolding u2 sx using top by (simp add: x_def)
  next
    case subnormal
    then have e': "e = - 1022" by (rule sub)
    have "x < pow2 e" using subnormal u by (simp add: pe x_def)
    then have "pow2 (ilog2 x) < pow2 e" using ilog2_bounds [OF x] by simp
    then have "ilog2 x < e" by (rule pow2_less_cancel)
    then have m: "e = max (ilog2 \<bar>x\<bar>) (- 1022)" using e' by (simp add: ax)
    have "\<bar>x\<bar> / pow2 (e - 52) = of_int n" unfolding ax using u by (simp add: x_def u_def)
    then have q: "n = roundHalfEven (\<bar>x\<bar> / pow2 (e - 52))" by (simp add: roundHalfEven_int)
    have "roundDouble x = Fin (sgn x * (of_int n * pow2 (e - 52)))"
      using roundDouble_unfold [OF x0 m q] subnormal e(2) by simp
    then show ?thesis unfolding sx by (simp add: x_def u_def)
  qed
  then show ?thesis by (simp add: x_def u_def)
qed

lemma roundDouble_minus: "roundDouble (- x) = js_neg (roundDouble x)"
proof (cases "x = 0")
  case True
  then show ?thesis by (simp add: roundDouble_def)
next
  case False
  define e where "e = max (ilog2 \<bar>x\<bar>) (- 1022)"
  define n where "n = roundHalfEven (\<bar>x\<bar> / pow2 (e - 52))"
  have e': "e = max (ilog2 \<bar>- x\<bar>) (- 1022)" by (simp add: e_def)
  have n': "n = roundHalfEven (\<bar>- x\<bar> / pow2 (e - 52))" by (simp add: n_def)
  have nx: "- x \<noteq> 0" using False by simp
  show ?thesis
    unfolding roundDouble_unfold [OF False e_def n_def] roundDouble_unfold [OF nx e' n']
    using False by (auto simp: sgn_if)
qed

text \<open>Rounding is idempotent: what \<open>roundDouble\<close> returns is a double.\<close>

lemma roundDouble_pos_idem:
  assumes x: "0 < x" and r: "roundDouble x = Fin r"
  shows "roundDouble r = Fin r"
proof -
  define e where "e = max (ilog2 \<bar>x\<bar>) (- 1022)"
  define n where "n = roundHalfEven (\<bar>x\<bar> / pow2 (e - 52))"
  define u where "u = pow2 (e - 52)"
  have u: "0 < u" unfolding u_def by (rule pow2_pos)
  have x0: "x \<noteq> 0" and ax: "\<bar>x\<bar> = x" and sx: "sgn x = 1" using x by simp_all
  have e_lo: "- 1022 \<le> e" and e_log: "ilog2 x \<le> e" by (simp_all add: e_def ax)
  have e_eq: "e = ilog2 x" if "e \<noteq> - 1022" using that by (simp add: e_def ax max_def split: if_splits)
  have nq: "n = roundHalfEven (x / u)" by (simp add: n_def u_def ax)
  from r have no: "\<not> (1024 \<le> e \<or> (e = 1023 \<and> n = 9007199254740992))"
    and rv: "r = of_int n * u"
    unfolding roundDouble_unfold [OF x0 e_def n_def] using x
    by (auto simp: sx u_def split: if_splits)
  have a52: "52 + (e - 52) = e" and a53: "53 + (e - 52) = e + 1" by simp_all
  have pe: "pow2 e = 4503599627370496 * u"
    using pow2_add [of 52 "e - 52"] unfolding a52 by (simp add: pow2_52 u_def)
  have pe1: "pow2 (e + 1) = 9007199254740992 * u"
    using pow2_add [of 53 "e - 52"] unfolding a53 by (simp add: pow2_53 u_def)
  have "x < pow2 (ilog2 x + 1)" using ilog2_bounds [OF x] by simp
  also have "\<dots> \<le> pow2 (e + 1)" using e_log by (intro pow2_le) simp
  finally have "x / u < 9007199254740992" using u by (simp add: pe1 pos_divide_less_eq)
  then have "x / u \<le> of_int 9007199254740992" by simp
  then have n_hi: "n \<le> 9007199254740992" unfolding nq by (rule roundHalfEven_le)
  have "of_int 0 \<le> x / u" using x u by simp
  then have n_lo: "0 \<le> n" unfolding nq by (rule roundHalfEven_ge)
  show ?thesis
  proof (cases "n = 0")
    case True
    then show ?thesis using rv by (simp add: roundDouble_def)
  next
    case False
    then have n0: "0 < n" using n_lo by simp
    have sub: "e = - 1022" if "n < 4503599627370496"
    proof (rule ccontr)
      assume "e \<noteq> - 1022"
      then have "e = ilog2 x" by (rule e_eq)
      then have "pow2 e \<le> x" using ilog2_bounds [OF x] by simp
      then have "of_int 4503599627370496 \<le> x / u" using u by (simp add: pe pos_le_divide_eq)
      then have "4503599627370496 \<le> n" unfolding nq by (rule roundHalfEven_ge)
      with that show False by simp
    qed
    have "roundDouble (of_int n * pow2 (e - 52)) = Fin (of_int n * pow2 (e - 52))"
    proof (rule roundDouble_fixed [OF n0 n_hi e_lo])
      show "e \<le> 1023" using no by simp
      show "\<not> (e = 1023 \<and> n = 9007199254740992)" using no by simp
      show "n < 4503599627370496 \<Longrightarrow> e = - 1022" by (rule sub)
    qed
    then show ?thesis by (simp add: rv u_def)
  qed
qed

lemma roundDouble_idem:
  assumes "roundDouble x = Fin r"
  shows "roundDouble r = Fin r"
proof -
  consider "x = 0" | "0 < x" | "x < 0" by linarith
  then show ?thesis
  proof cases
    case 1
    then show ?thesis using assms by (auto simp: roundDouble_def)
  next
    case 2
    then show ?thesis using assms by (rule roundDouble_pos_idem)
  next
    case 3
    then have p: "0 < - x" by simp
    have "roundDouble (- x) = Fin (- r)" using assms by (simp add: roundDouble_minus)
    from roundDouble_pos_idem [OF p this] have "roundDouble (- r) = Fin (- r)" .
    then have "js_neg (roundDouble r) = Fin (- r)" by (simp add: roundDouble_minus)
    then show ?thesis by (cases "roundDouble r") simp_all
  qed
qed

text \<open>The results of the arithmetic are doubles, and adding one to 0 returns it.\<close>

lemma isDouble_roundDouble: "isDouble (roundDouble x)"
  by (cases "roundDouble x") (simp_all add: isDouble_def roundDouble_idem)

lemma isDouble_js_mul: "isDouble (js_mul a b)"
  by (cases "(a, b)" rule: js_mul.cases) (simp_all add: isDouble_roundDouble, simp_all add: isDouble_def)

lemma isDouble_js_add: "isDouble (js_add a b)"
  by (cases "(a, b)" rule: js_add.cases) (simp_all add: isDouble_roundDouble, simp_all add: isDouble_def)

lemma js_add_zero_left: "isDouble v \<Longrightarrow> js_add (Fin 0) v = v"
  by (cases v) (simp_all add: isDouble_def)

section \<open>The total\<close>

lemma addEntry_NaN_acc: "addEntry NaN item = NaN"
  by (simp add: addEntry_def Let_def)

lemma foldl_addEntry_NaN: "foldl addEntry NaN c = NaN"
  by (induction c) (simp_all add: addEntry_NaN_acc)

lemma js_add_NaN_right: "js_add a NaN = NaN"
  by (cases a) simp_all

lemma addEntry_NaN_price:
  "parseFloat (replace (price item) [pound] '''') = NaN \<Longrightarrow> addEntry acc item = NaN"
  by (simp add: addEntry_def Let_def js_add_NaN_right)

lemma foldl_addEntry_malformed:
  "item \<in> set c \<Longrightarrow> parseFloat (replace (price item) [pound] '''') = NaN \<Longrightarrow>
   foldl addEntry acc c = NaN"
proof (induction c arbitrary: acc)
  case Nil
  then show ?case by simp
next
  case (Cons x c)
  show ?case
  proof (cases "x = item")
    case True
    then show ?thesis using Cons.prems(2) by (simp add: addEntry_NaN_price foldl_addEntry_NaN)
  next
    case False
    then show ?thesis using Cons by simp
  qed
qed

lemma computeTotal_single: "computeTotal [y] = js_mul (parseFloat (replace (price y) [pound] ''''))
                                                  (number (cartQuantity y))"
  by (simp add: computeTotal_def addEntry_def Let_def js_add_zero_left isDouble_js_mul)

lemma tenths_values:
  "computeTotal ([mkEntry 1 (pound # ''0.1'') 1] @
                 [mkEntry 2 (pound # ''0.2'') 1, mkEntry 3 (pound # ''0.3'') 1])
     = Fin (5404319552844596 / 9007199254740992)"
  "js_add (computeTotal [mkEntry 1 (pound # ''0.1'') 1])
          (computeTotal [mkEntry 2 (pound # ''0.2'') 1, mkEntry 3 (pound # ''0.3'') 1])
     = Fin (5404319552844595 / 9007199254740992)"
  "computeTotal [mkEntry 1 (pound # ''0.25'') 2, mkEntry 2 (pound # ''1.5'') 3] = Fin 5"
  by code_simp+

text \<open>
  \<^bold>\<open>Claim C4\<close>, as the code has it. The total of the empty cart is 0; the total of
  \<open>xs @ ys\<close> is the reduction of \<open>ys\<close> continued from the total of \<open>xs\<close>; and it is the
  sum of the two totals when \<open>ys\<close> is a single entry. (The sum of the two totals is
  rounded once more than the reduction when \<open>ys\<close> is longer.)
\<close>

theorem total_law:
  "computeTotal [] = Fin 0 \<and>
   computeTotal (xs @ ys) = foldl addEntry (computeTotal xs) ys \<and>
   computeTotal (xs @ [y]) = js_add (computeTotal xs) (computeTotal [y])"
proof (intro conjI)
  show "computeTotal [] = Fin 0" by (simp add: computeTotal_def)
  show "computeTotal (xs @ ys) = foldl addEntry (computeTotal xs) ys"
    by (simp add: computeTotal_def)
  show "computeTotal (xs @ [y]) = js_add (computeTotal xs) (computeTotal [y])"
    unfolding computeTotal_single by (simp add: computeTotal_def addEntry_def Let_def)
qed

theorem total_law_witness:
  "computeTotal ([mkEntry 1 (pound # ''0.25'') 2] @ [mkEntry 2 (pound # ''1.5'') 3])
     = js_add (computeTotal [mkEntry 1 (pound # ''0.25'') 2])
              (computeTotal [mkEntry 2 (pound # ''1.5'') 3]) \<and>
   computeTotal [mkEntry 1 (pound # ''0.25'') 2, mkEntry 2 (pound # ''1.5'') 3] = Fin 5"
  using total_law [of "[mkEntry 1 (pound # ''0.25'') 2]" "[]" "mkEntry 2 (pound # ''1.5'') 3"]
    tenths_values(3)
  by simp

text \<open>
  Additivity over concatenation fails in the arithmetic of the code: three entries
  priced 0.1, 0.2 and 0.3 pounds total 0.6000000000000001, while the total of the
  first plus the total of the other two is 0.6.
\<close>

theorem total_law_counterexample:
  "computeTotal ([mkEntry 1 (pound # ''0.1'') 1] @
                 [mkEntry 2 (pound # ''0.2'') 1, mkEntry 3 (pound # ''0.3'') 1])
   \<noteq> js_add (computeTotal [mkEntry 1 (pound # ''0.1'') 1])
             (computeTotal [mkEntry 2 (pound # ''0.2'') 1, mkEntry 3 (pound # ''0.3'') 1])"
  unfolding tenths_values by simp

lemma malformed_values:
  "parseFloat (replace (price (mkEntry 1 ''abc'' 1)) [pound] '''') = NaN"
  "computeTotal [mkEntry 1 ''abc'' 1] = NaN"
  "computeTotal [mkEntry 1 (pound # ''12abc'') 1] = Fin 12"
  "mkEntry 1 ''abc'' 1 \<in> set [mkEntry 2 (pound # ''150'') 1, mkEntry 1 ''abc'' 1]"
  by code_simp+

text \<open>
  \<^bold>\<open>Claim C5\<close>, as the code has it. For every cart with an entry whose price, once
  the first pound sign is removed, does not start with a decimal number
  (\<open>parseFloat\<close> gives \<open>NaN\<close>), the total is the value \<open>NaN\<close>: nothing is raised or
  reported.
\<close>

theorem malformed_price_NaN:
  "item \<in> set c \<Longrightarrow> parseFloat (replace (price item) [pound] '''') = NaN \<Longrightarrow>
   computeTotal c = NaN"
  unfolding computeTotal_def by (rule foldl_addEntry_malformed)

theorem malformed_price_NaN_witness:
  "mkEntry 1 ''abc'' 1 \<in> set [mkEntry 2 (pound # ''150'') 1, mkEntry 1 ''abc'' 1] \<and>
   parseFloat (replace (price (mkEntry 1 ''abc'' 1)) [pound] '''') = NaN \<and>
   computeTotal [mkEntry 2 (pound # ''150'') 1, mkEntry 1 ''abc'' 1] = NaN"
  using malformed_price_NaN [OF malformed_values(4) malformed_values(1)] malformed_values(1,4)
  by blast

text \<open>
  No parse error is reported: a price without a number makes the total \<open>NaN\<close>, and a
  price with text after the number is read as the number.
\<close>

theorem malformed_price_counterexample:
  "computeTotal [mkEntry 1 ''abc'' 1] = NaN \<and>
   computeTotal [mkEntry 1 (pound # ''12abc'') 1] = Fin 12"
  using malformed_values(2,3) by simp

section \<open>The checkout of the cart page\<close>










section \<open>Filtering and sorting the catalogue\<close>

lemma js_sort_all_notAfter:
  "(\<And>x y. x \<in> set xs \<Longrightarrow> y \<in> set xs \<Longrightarrow> notAfter (cmp x y)) \<Longrightarrow> js_sort cmp xs = xs"
proof (induction xs)
  case Nil
  then show ?case by (simp add: js_sort_def)
next
  case (Cons x xs)
  then have "js_sort cmp xs = xs" by simp
  moreover have "js_insert cmp x xs = x # xs"
    using Cons.prems by (cases xs) auto
  ultimately show ?case by (simp add: js_sort_def)
qed

lemma parseInt_pound: "parseInt (replace (pound # s) ''$'' '''') = NaN"
proof -
  have "replace (pound # s) ''$'' '''' = pound # replace s ''$'' ''''"
    by (simp add: startsWith_def pound_def)
  moreover have "parseInt (pound # t) = NaN" for t
    by (simp add: parseInt_def stripSign_def isWhiteSpace_def code_def pound_def startsWith_def
          isDigit_def Let_def)
  ultimately show ?thesis by simp
qed

lemma comparePrice_pound:
  "price a = pound # s \<Longrightarrow> comparePrice a b = NaN"
  by (simp add: comparePrice_def parseInt_pound Let_def js_sub_def del: replace.simps)

lemma seed_prices: "p \<in> set seed \<Longrightarrow> \<exists>s. price p = pound # s"
  by (auto simp: seed_def mkProduct_def)

text \<open>
  With every price starting with the pound sign, \<^verbatim>\<open>replace('$', '')\<close> removes nothing,
  \<open>parseInt\<close> gives \<open>NaN\<close>, every comparison counts as 0 and the sort by price returns
  the catalogue in the order it has.
\<close>

lemma price_sort_noop:
  assumes "\<And>p. p \<in> set (products s) \<Longrightarrow> \<exists>t. price p = pound # t"
    and "searchQuery s = []" and "sortBy s = ''price''"
  shows "filteredProducts lc s = products s"
proof -
  have "js_sort (\<lambda>a b. comparePrice a b) (products s) = products s"
  proof (rule js_sort_all_notAfter)
    fix x y assume "x \<in> set (products s)"
    then obtain t where "price x = pound # t" using assms(1) by blast
    then show "notAfter (comparePrice x y)" by (simp add: comparePrice_pound)
  qed
  then show ?thesis using assms(2,3) by (simp add: filteredProducts_def)
qed

lemma seed_rows:
  "name (seed ! 3) = ''Cybersecurity Basics''" "price (seed ! 3) = pound # ''250''"
  "name (seed ! 9) = ''Python Programming''" "price (seed ! 9) = pound # ''150''"
  by (simp_all add: seed_def mkProduct_def)

text \<open>
  \<^bold>\<open>Claim C3\<close>, evaluated on the code. On the seeded catalogue the query
  \<open>liverpool\<close> returns the Python lesson alone. Sorted by price, the seeded catalogue
  comes back in its seeded order, in which Cybersecurity Basics (250 pounds, position
  3) stands before Python Programming (150 pounds, position 9); and the catalogue of
  these two lessons alone, Cybersecurity Basics first, comes back with Cybersecurity
  Basics first.
\<close>

theorem price_sort_seed:
  "map name (filteredProducts lc ((initial st)\<lparr>searchQuery := ''liverpool''\<rparr>))
     = [''Python Programming''] \<and>
   filteredProducts lc ((initial st)\<lparr>sortBy := ''price''\<rparr>) = seed \<and>
   filteredProducts lc ((initial st)\<lparr>products := [seed ! 3, seed ! 9], sortBy := ''price''\<rparr>)
     = [seed ! 3, seed ! 9] \<and>
   name (seed ! 3) = ''Cybersecurity Basics'' \<and> price (seed ! 3) = pound # ''250'' \<and>
   name (seed ! 9) = ''Python Programming'' \<and> price (seed ! 9) = pound # ''150''"
proof (intro conjI)
  show "map name (filteredProducts lc ((initial st)\<lparr>searchQuery := ''liverpool''\<rparr>))
          = [''Python Programming'']"
    by code_simp
  show "filteredProducts lc ((initial st)\<lparr>sortBy := ''price''\<rparr>) = seed"
    using price_sort_noop [of "(initial st)\<lparr>sortBy := ''price''\<rparr>" lc] seed_prices
    by (simp add: initial_def)
  show "filteredProducts lc ((initial st)\<lparr>products := [seed ! 3, seed ! 9], sortBy := ''price''\<rparr>)
          = [seed ! 3, seed ! 9]"
    using price_sort_noop [of "(initial st)\<lparr>products := [seed ! 3, seed ! 9], sortBy := ''price''\<rparr>" lc]
      seed_rows(2,4)
    by (auto simp: initial_def)
qed (rule seed_rows)+

section \<open>Loading the cart\<close>





end
